theory Spec2Isabelle
  imports Complex_Main "HOL-Library.Char_ord" "HOL-Library.List_Lexorder" "HOL-Library.Option_ord"
    "HOL-Library.Log_Nat"
begin


chapter \<open>Fee payments, the dashboard and marks of the college administration\<close>

text \<open>
  The route handlers are modelled as functions of the database: a handler takes what
  the request carries and the store, and returns the store it leaves and its response.
  The database is taken to answer every query; its failures, which the handlers turn
  into a 500, are not modelled, and neither are the lines the handlers write to the
  console. The clock's reading is an argument. The fee handlers are those of
  src/unnamed/part_000, the dashboard handler that of src/unnamed/part_001.
\<close>

section \<open>JavaScript values\<close>

text \<open>
  A JavaScript number is an IEEE 754 double: a finite value, one of the two infinities,
  or NaN. A finite double is modelled by the rational it denotes; the sign of a zero is
  not kept (no handler below tells the two zeros apart). \<open>JSON.parse\<close> never produces
  NaN, but it does produce \<open>Infinity\<close> (for instance from the literal \<open>1e999\<close>).
\<close>

datatype jsnum = Fin rat | PInf | NInf | NaN

text \<open>
  A value as \<open>request.json()\<close> and destructuring deliver it: \<open>VUndefined\<close> is the
  value of an absent property. An object is the list of its properties, each key once
  (a lookup takes the first); what an array holds is never looked at.
\<close>

datatype jsval =
    VUndefined
  | VNull
  | VBool bool
  | VNum jsnum
  | VStr string
  | VArr "jsval list"
  | VObj "(string \<times> jsval) list"

datatype jstype = TUndefined | TObject | TBoolean | TNumber | TString

fun typeof :: "jsval \<Rightarrow> jstype" where
  "typeof VUndefined = TUndefined"
| "typeof VNull = TObject"
| "typeof (VBool b) = TBoolean"
| "typeof (VNum n) = TNumber"
| "typeof (VStr s) = TString"
| "typeof (VArr xs) = TObject"
| "typeof (VObj kvs) = TObject"

text \<open>ToBoolean: what \<open>!v\<close> and \<open>v || d\<close> test.\<close>

fun truthy_num :: "jsnum \<Rightarrow> bool" where
  "truthy_num (Fin r) = (r \<noteq> 0)"
| "truthy_num PInf = True"
| "truthy_num NInf = True"
| "truthy_num NaN = False"

fun truthy :: "jsval \<Rightarrow> bool" where
  "truthy VUndefined = False"
| "truthy VNull = False"
| "truthy (VBool b) = b"
| "truthy (VNum n) = truthy_num n"
| "truthy (VStr s) = (s \<noteq> [])"
| "truthy (VArr xs) = True"
| "truthy (VObj kvs) = True"

text \<open>
  An arithmetic operation on finite doubles yields the double nearest to its exact
  result, a tie going to the one whose significand is even, and an infinity when that
  result is out of range. The doubles of the binade from \<open>2^e\<close> up to \<open>2^(e+1)\<close> are
  the multiples of \<open>2^(e-52)\<close>, the doubles below \<open>2^(-1022)\<close> the multiples of
  \<open>2^(-1074)\<close>, and the largest double is just below \<open>2^1024\<close>. For a positive \<open>x\<close>,
  \<open>binade x\<close> is the \<open>e\<close> of its binade and \<open>quantum x\<close> the exponent of the spacing
  of the doubles around it.
\<close>

definition binade :: "rat \<Rightarrow> int" where
  "binade x = (if 1 \<le> x then bitlen \<lfloor>x\<rfloor> - 1 else - bitlen (\<lceil>1 / x\<rceil> - 1))"

definition quantum :: "rat \<Rightarrow> int" where
  "quantum x = max (binade \<bar>x\<bar> - 52) (- 1074)"

definition round_half_even :: "rat \<Rightarrow> int" where
  "round_half_even y =
     (let n = \<lfloor>y\<rfloor>; r = y - of_int n
      in if r < 1 / 2 then n else if 1 / 2 < r then n + 1 else if even n then n else n + 1)"

definition round_to_double :: "rat \<Rightarrow> jsnum" where
  "round_to_double x =
     (if x = 0 then Fin 0
      else let q = quantum x; m = round_half_even (\<bar>x\<bar> / 2 powi q)
           in if 2 ^ 1024 \<le> of_int m * (2 powi q :: rat)
              then (if 0 < x then PInf else NInf)
              else Fin (sgn x * (of_int m * 2 powi q)))"

text \<open>
  A decimal literal, in the source or in JSON, denotes the double nearest to it: the
  \<open>0.01\<close> of the source is \<open>js_literal (1 / 100)\<close>, which is above one hundredth.
\<close>

definition js_literal :: "rat \<Rightarrow> jsnum" where
  "js_literal x = round_to_double x"

text \<open>
  The binary minus, the division, the product, \<open>Math.abs\<close> and the comparisons on
  numbers. A division by zero yields the infinity of the dividend's sign, as it does
  for the positive zero.
\<close>

fun js_sub :: "jsnum \<Rightarrow> jsnum \<Rightarrow> jsnum" where
  "js_sub (Fin a) (Fin b) = round_to_double (a - b)"
| "js_sub (Fin a) PInf = NInf"
| "js_sub (Fin a) NInf = PInf"
| "js_sub PInf (Fin b) = PInf"
| "js_sub PInf NInf = PInf"
| "js_sub PInf PInf = NaN"
| "js_sub NInf (Fin b) = NInf"
| "js_sub NInf PInf = NInf"
| "js_sub NInf NInf = NaN"
| "js_sub NaN y = NaN"
| "js_sub x NaN = NaN"

fun js_div :: "jsnum \<Rightarrow> jsnum \<Rightarrow> jsnum" where
  "js_div (Fin a) (Fin b) =
     (if b = 0 then (if a = 0 then NaN else if 0 < a then PInf else NInf)
      else round_to_double (a / b))"
| "js_div (Fin a) PInf = Fin 0"
| "js_div (Fin a) NInf = Fin 0"
| "js_div PInf (Fin b) = (if b < 0 then NInf else PInf)"
| "js_div NInf (Fin b) = (if b < 0 then PInf else NInf)"
| "js_div x y = NaN"

fun js_mul :: "jsnum \<Rightarrow> jsnum \<Rightarrow> jsnum" where
  "js_mul (Fin a) (Fin b) = round_to_double (a * b)"
| "js_mul (Fin a) PInf = (if a = 0 then NaN else if 0 < a then PInf else NInf)"
| "js_mul (Fin a) NInf = (if a = 0 then NaN else if 0 < a then NInf else PInf)"
| "js_mul PInf (Fin b) = (if b = 0 then NaN else if 0 < b then PInf else NInf)"
| "js_mul NInf (Fin b) = (if b = 0 then NaN else if 0 < b then NInf else PInf)"
| "js_mul PInf PInf = PInf"
| "js_mul PInf NInf = NInf"
| "js_mul NInf PInf = NInf"
| "js_mul NInf NInf = PInf"
| "js_mul x y = NaN"

fun Math_abs :: "jsnum \<Rightarrow> jsnum" where
  "Math_abs (Fin a) = Fin \<bar>a\<bar>"
| "Math_abs PInf = PInf"
| "Math_abs NInf = PInf"
| "Math_abs NaN = NaN"

fun js_gt :: "jsnum \<Rightarrow> jsnum \<Rightarrow> bool" where
  "js_gt (Fin a) (Fin b) = (a > b)"
| "js_gt (Fin a) NInf = True"
| "js_gt PInf (Fin b) = True"
| "js_gt PInf NInf = True"
| "js_gt x y = False"

fun js_le :: "jsnum \<Rightarrow> jsnum \<Rightarrow> bool" where
  "js_le (Fin a) (Fin b) = (a \<le> b)"
| "js_le (Fin a) PInf = True"
| "js_le NInf (Fin b) = True"
| "js_le NInf NInf = True"
| "js_le NInf PInf = True"
| "js_le PInf PInf = True"
| "js_le x y = False"

text \<open>
  Property access \<open>o.k\<close> as destructuring performs it, and the \<open>in\<close> operator, which
  throws a TypeError (here \<open>None\<close>) on a primitive. The keys the handlers ask for are
  never array indices or \<open>length\<close>, so an array has none of them.
\<close>

fun prop_of :: "jsval \<Rightarrow> string \<Rightarrow> jsval" where
  "prop_of (VObj kvs) k = (case map_of kvs k of None \<Rightarrow> VUndefined | Some v \<Rightarrow> v)"
| "prop_of v k = VUndefined"

fun js_in :: "string \<Rightarrow> jsval \<Rightarrow> bool option" where
  "js_in k (VObj kvs) = Some (map_of kvs k \<noteq> None)"
| "js_in k (VArr xs) = Some False"
| "js_in k v = None"

text \<open>
  Library functions of the platform that the handlers call and whose definition is not
  part of the repository. The handlers are modelled for every behaviour of them:
  \<^item> \<open>parseInt\<close>: the global \<open>parseInt\<close>, \<open>None\<close> for NaN (results are taken to be
    integers: the strings of more than 308 digits, on which it answers \<open>Infinity\<close>,
    are outside the model);
  \<^item> \<open>Date_parse_isNaN v\<close>: whether \<open>isNaN(Date.parse(v))\<close>;
  \<^item> \<open>db_text v\<close>: the text a column of text affinity holds after a value \<open>v\<close> that
    is not a string was bound to it, \<open>None\<close> when the driver refuses to bind \<open>v\<close>;
  \<^item> \<open>String_trim\<close>: \<open>String.prototype.trim\<close>.
\<close>

record builtins =
  parseInt :: "jsval \<Rightarrow> int option"
  Date_parse_isNaN :: "jsval \<Rightarrow> bool"
  db_text :: "jsval \<Rightarrow> string option"
  String_trim :: "string \<Rightarrow> string"

section \<open>The persisted entities (src/db/schema.ts)\<close>

text \<open>
  A table is the list of its rows. A nullable column is an option. The timestamps are
  the ISO strings the handlers write; the database compares them as text.
\<close>

record student =
  s_id :: int
  s_name :: string
  s_balance :: "jsnum option"
  s_status :: string
  s_createdAt :: string
  s_updatedAt :: string

record fee =
  f_id :: int
  f_studentId :: "int option"
  f_amount :: jsnum
  f_dueDate :: string
  f_paidDate :: "string option"
  f_status :: string
  f_type :: string
  f_createdAt :: string
  f_updatedAt :: string

record course =
  c_id :: int
  c_title :: string
  c_code :: string

record enrollment =
  e_id :: int
  e_studentId :: "int option"
  e_courseId :: "int option"
  e_enrollmentDate :: string
  e_status :: string
  e_createdAt :: string
  e_updatedAt :: string

record attendance_row =
  a_id :: int
  a_studentId :: "int option"
  a_courseId :: "int option"
  a_date :: string
  a_status :: string
  a_session :: string

record mark =
  m_id :: int
  m_studentId :: "int option"
  m_courseId :: "int option"
  m_semester :: int
  m_internalMarks :: "int option"
  m_externalMarks :: "int option"
  m_totalMarks :: "int option"
  m_grade :: "string option"
  m_createdAt :: string
  m_updatedAt :: string

record store =
  fees :: "fee list"
  students :: "student list"
  courses :: "course list"
  enrollments :: "enrollment list"
  attendance :: "attendance_row list"
  marks :: "mark list"

section \<open>The fee payment handler (PUT /api/fees/[id]/payment)\<close>

datatype pay_error =
    AUTH_REQUIRED
  | INVALID_ID
  | USER_ID_NOT_ALLOWED
  | MISSING_AMOUNT_PAID
  | MISSING_PAYMENT_METHOD
  | MISSING_TRANSACTION_ID
  | INVALID_AMOUNT
  | FEE_NOT_FOUND
  | STUDENT_NOT_FOUND
  | FEE_ALREADY_PAID
  | INVALID_FEE_STATUS
  | AMOUNT_MISMATCH jsnum jsnum
  | UPDATE_FAILED
  | INTERNAL_ERROR


record payment_details =
  pd_amount_paid :: jsnum
  pd_payment_method :: string
  pd_transaction_id :: string
  pd_processed_by :: string
  pd_processed_at :: string

record student_info =
  si_id :: int
  si_name :: string
  si_previousBalance :: jsnum
  si_newBalance :: jsnum

record payment_response =
  updated_fee :: fee
  paymentDetails :: payment_details
  studentInfo :: student_info

text \<open>
  Lines 167-206: the body is read and its three fields validated, before the database
  is touched. A body that is not valid JSON (\<open>None\<close>), \<open>null\<close> (destructuring throws)
  or a primitive (\<open>in\<close> throws) ends in the \<open>catch\<close> block.
\<close>

definition validate_body :: "jsval option \<Rightarrow> pay_error + (jsnum \<times> string \<times> string)" where
  "validate_body requestBody =
     (case requestBody of
        None \<Rightarrow> Inl INTERNAL_ERROR
      | Some VNull \<Rightarrow> Inl INTERNAL_ERROR
      | Some VUndefined \<Rightarrow> Inl INTERNAL_ERROR
      | Some body \<Rightarrow>
          (let amount_paid = prop_of body ''amount_paid'';
               payment_method = prop_of body ''payment_method'';
               transaction_id = prop_of body ''transaction_id''
           in case (js_in ''userId'' body, js_in ''user_id'' body) of
                (None, _) \<Rightarrow> Inl INTERNAL_ERROR
              | (Some True, _) \<Rightarrow> Inl USER_ID_NOT_ALLOWED
              | (Some False, None) \<Rightarrow> Inl INTERNAL_ERROR
              | (Some False, Some True) \<Rightarrow> Inl USER_ID_NOT_ALLOWED
              | (Some False, Some False) \<Rightarrow>
                  if amount_paid = VUndefined \<or> amount_paid = VNull then Inl MISSING_AMOUNT_PAID
                  else if \<not> truthy payment_method \<or> typeof payment_method \<noteq> TString
                  then Inl MISSING_PAYMENT_METHOD
                  else if \<not> truthy transaction_id \<or> typeof transaction_id \<noteq> TString
                  then Inl MISSING_TRANSACTION_ID
                  else (case (amount_paid, payment_method, transaction_id) of
                          (VNum a, VStr m, VStr t) \<Rightarrow>
                            if js_le a (Fin 0) then Inl INVALID_AMOUNT else Inr (a, m, t)
                        | _ \<Rightarrow> Inl INVALID_AMOUNT)))"

text \<open>
  Lines 208-232: the fee row left-joined with its student, \<open>limit 1\<close>. The student of
  the joined row is \<open>null\<close> when no student row has the fee's \<open>studentId\<close>.
\<close>

definition select_fee :: "store \<Rightarrow> int \<Rightarrow> pay_error + (fee \<times> student)" where
  "select_fee db feeId =
     (case find (\<lambda>f. f_id f = feeId) (fees db) of
        None \<Rightarrow> Inl FEE_NOT_FOUND
      | Some fee \<Rightarrow>
          (case find (\<lambda>s. Some (s_id s) = f_studentId fee) (students db) of
             None \<Rightarrow> Inl STUDENT_NOT_FOUND
           | Some student \<Rightarrow> Inr (fee, student)))"

text \<open>Lines 234-256: the status of the fee, then the amount against the fee's.\<close>

definition check_payable :: "fee \<Rightarrow> jsnum \<Rightarrow> pay_error option" where
  "check_payable fee amount_paid =
     (if f_status fee = ''paid'' then Some FEE_ALREADY_PAID
      else if f_status fee \<noteq> ''pending'' \<and> f_status fee \<noteq> ''overdue'' then Some INVALID_FEE_STATUS
      else if js_gt (Math_abs (js_sub amount_paid (f_amount fee))) (js_literal (1 / 100))
      then Some (AMOUNT_MISMATCH amount_paid (f_amount fee))
      else None)"

text \<open>Lines 260-268: \<open>update fees set ... where id = feeId returning *\<close>.\<close>

definition mark_paid :: "string \<Rightarrow> fee \<Rightarrow> fee" where
  "mark_paid currentTimestamp f =
     f\<lparr>f_status := ''paid'', f_paidDate := Some currentTimestamp, f_updatedAt := currentTimestamp\<rparr>"

definition update_fee_paid :: "store \<Rightarrow> int \<Rightarrow> string \<Rightarrow> store \<times> fee list" where
  "update_fee_paid db feeId currentTimestamp =
     (db\<lparr>fees := map (\<lambda>f. if f_id f = feeId then mark_paid currentTimestamp f else f) (fees db)\<rparr>,
      map (mark_paid currentTimestamp) (filter (\<lambda>f. f_id f = feeId) (fees db)))"

text \<open>Lines 277-284: \<open>student.balance || 0\<close>, and the update of the student's row.\<close>

fun balance_or_0 :: "jsnum option \<Rightarrow> jsnum" where
  "balance_or_0 None = Fin 0"
| "balance_or_0 (Some b) = (if truthy_num b then b else Fin 0)"

definition update_student_balance :: "store \<Rightarrow> int \<Rightarrow> jsnum \<Rightarrow> string \<Rightarrow> store" where
  "update_student_balance db studentId newBalance currentTimestamp =
     db\<lparr>students :=
          map (\<lambda>s. if s_id s = studentId
                   then s\<lparr>s_balance := Some newBalance, s_updatedAt := currentTimestamp\<rparr>
                   else s) (students db)\<rparr>"

text \<open>
  Lines 258-318: the two writes and the response, from the fee and the student that
  the select returned.
\<close>

definition apply_payment ::
  "builtins \<Rightarrow> string \<Rightarrow> string \<Rightarrow> int \<Rightarrow> fee \<Rightarrow> student \<Rightarrow> jsnum \<Rightarrow> string \<Rightarrow> string \<Rightarrow> store
     \<Rightarrow> store \<times> (pay_error + payment_response)" where
  "apply_payment env currentTimestamp user_id feeId fee student amount_paid payment_method
       transaction_id db =
     (case update_fee_paid db feeId currentTimestamp of
        (db1, []) \<Rightarrow> (db1, Inl UPDATE_FAILED)
      | (db1, updatedFee0 # rest) \<Rightarrow>
          (let newBalance = js_sub (balance_or_0 (s_balance student)) amount_paid;
               db2 = update_student_balance db1 (s_id student) newBalance currentTimestamp
           in (db2,
               Inr \<lparr>updated_fee = updatedFee0,
                    paymentDetails =
                      \<lparr>pd_amount_paid = amount_paid,
                       pd_payment_method = String_trim env payment_method,
                       pd_transaction_id = String_trim env transaction_id,
                       pd_processed_by = user_id,
                       pd_processed_at = currentTimestamp\<rparr>,
                    studentInfo =
                      \<lparr>si_id = s_id student,
                       si_name = s_name student,
                       si_previousBalance = balance_or_0 (s_balance student),
                       si_newBalance = newBalance\<rparr>\<rparr>)))"

text \<open>
  The handler. \<open>user\<close> is what \<open>getCurrentUser\<close> returned (the id of the session's
  user, or \<open>None\<close>), \<open>id_param\<close> the route parameter \<open>id\<close>, \<open>requestBody\<close> what \<open>request.json()\<close>
  returned (\<open>None\<close> when it threw), \<open>currentTimestamp\<close> the clock's reading.
\<close>

definition PUT_payment ::
  "builtins \<Rightarrow> string \<Rightarrow> string option \<Rightarrow> string \<Rightarrow> jsval option \<Rightarrow> store
     \<Rightarrow> store \<times> (pay_error + payment_response)" where
  "PUT_payment env currentTimestamp user id_param requestBody db =
     (case user of
        None \<Rightarrow> (db, Inl AUTH_REQUIRED)
      | Some user_id \<Rightarrow>
          (case (if id_param = [] then None else parseInt env (VStr id_param)) of
             None \<Rightarrow> (db, Inl INVALID_ID)
           | Some feeId \<Rightarrow>
               (case validate_body requestBody of
                  Inl e \<Rightarrow> (db, Inl e)
                | Inr (amount_paid, payment_method, transaction_id) \<Rightarrow>
                    (case select_fee db feeId of
                       Inl e \<Rightarrow> (db, Inl e)
                     | Inr (fee, student) \<Rightarrow>
                         (case check_payable fee amount_paid of
                            Some e \<Rightarrow> (db, Inl e)
                          | None \<Rightarrow>
                              apply_payment env currentTimestamp user_id feeId fee student
                                amount_paid payment_method transaction_id db)))))"

section \<open>The payment handler, one database call at a time\<close>

text \<open>
  The handler awaits three database calls: the select (line 209), the update of the fee
  (line 261) and the update of the student (line 279). Another request can run between
  two of them. What the handler does before the select does not read the store, so it
  is one step with the select. A call in progress is what the handler holds in its
  local variables.
\<close>

record pending_write =
  pw_user_id :: string
  pw_feeId :: int
  pw_student :: student
  pw_amount_paid :: jsnum
  pw_payment_method :: string
  pw_transaction_id :: string
  pw_currentTimestamp :: string

datatype call_state =
    Ready "string option" string "jsval option" string
  | Checked pending_write
  | FeeWritten pending_write fee
  | Finished "pay_error + payment_response"

text \<open>
  \<open>Ready user id_param requestBody currentTimestamp\<close> is a request that has not yet
  reached the select; its last component is the time the handler will read at line 258.
\<close>

fun call_step :: "builtins \<Rightarrow> call_state \<Rightarrow> store \<Rightarrow> call_state \<times> store" where
  "call_step env (Ready user id_param requestBody currentTimestamp) db =
     (case user of
        None \<Rightarrow> (Finished (Inl AUTH_REQUIRED), db)
      | Some user_id \<Rightarrow>
          (case (if id_param = [] then None else parseInt env (VStr id_param)) of
             None \<Rightarrow> (Finished (Inl INVALID_ID), db)
           | Some feeId \<Rightarrow>
               (case validate_body requestBody of
                  Inl e \<Rightarrow> (Finished (Inl e), db)
                | Inr (amount_paid, payment_method, transaction_id) \<Rightarrow>
                    (case select_fee db feeId of
                       Inl e \<Rightarrow> (Finished (Inl e), db)
                     | Inr (fee, student) \<Rightarrow>
                         (case check_payable fee amount_paid of
                            Some e \<Rightarrow> (Finished (Inl e), db)
                          | None \<Rightarrow>
                              (Checked
                                 \<lparr>pw_user_id = user_id, pw_feeId = feeId, pw_student = student,
                                  pw_amount_paid = amount_paid,
                                  pw_payment_method = payment_method,
                                  pw_transaction_id = transaction_id,
                                  pw_currentTimestamp = currentTimestamp\<rparr>, db))))))"
| "call_step env (Checked w) db =
     (case update_fee_paid db (pw_feeId w) (pw_currentTimestamp w) of
        (db1, []) \<Rightarrow> (Finished (Inl UPDATE_FAILED), db1)
      | (db1, updatedFee0 # rest) \<Rightarrow> (FeeWritten w updatedFee0, db1))"
| "call_step env (FeeWritten w updatedFee0) db =
     (let student = pw_student w;
          newBalance = js_sub (balance_or_0 (s_balance student)) (pw_amount_paid w)
      in (Finished
            (Inr \<lparr>updated_fee = updatedFee0,
                  paymentDetails =
                    \<lparr>pd_amount_paid = pw_amount_paid w,
                     pd_payment_method = String_trim env (pw_payment_method w),
                     pd_transaction_id = String_trim env (pw_transaction_id w),
                     pd_processed_by = pw_user_id w,
                     pd_processed_at = pw_currentTimestamp w\<rparr>,
                  studentInfo =
                    \<lparr>si_id = s_id student,
                     si_name = s_name student,
                     si_previousBalance = balance_or_0 (s_balance student),
                     si_newBalance = newBalance\<rparr>\<rparr>),
          update_student_balance db (s_id student) newBalance (pw_currentTimestamp w)))"
| "call_step env (Finished r) db = (Finished r, db)"

text \<open>
  Two requests in flight and the order in which their database calls reach the
  database: \<open>False\<close> lets the first request take its next step, \<open>True\<close> the second.
\<close>

fun run_schedule ::
  "builtins \<Rightarrow> bool list \<Rightarrow> call_state \<times> call_state \<times> store \<Rightarrow> call_state \<times> call_state \<times> store" where
  "run_schedule env [] cfg = cfg"
| "run_schedule env (False # sched) (c1, c2, db) =
     run_schedule env sched (fst (call_step env c1 db), c2, snd (call_step env c1 db))"
| "run_schedule env (True # sched) (c1, c2, db) =
     run_schedule env sched (c1, fst (call_step env c2 db), snd (call_step env c2 db))"

text \<open>Whether a call has answered 200.\<close>

fun succeeded :: "call_state \<Rightarrow> bool" where
  "succeeded (Finished (Inr resp)) = True"
| "succeeded c = False"

section \<open>The generic fee update handler (PUT /api/fees?id=)\<close>

datatype fee_error =
    FEES_INVALID_ID
  | FEES_NOT_FOUND
  | FEES_INVALID_STUDENT_ID
  | FEES_STUDENT_NOT_FOUND
  | FEES_INVALID_AMOUNT
  | FEES_INVALID_DUE_DATE
  | FEES_INVALID_TYPE
  | FEES_INVALID_STATUS
  | FEES_INVALID_PAID_DATE
  | FEES_INTERNAL_ERROR

text \<open>
  \<open>eq(students.id, studentId)\<close> for a number out of the body: student ids are integers,
  so a row matches only an integral finite number.
\<close>

fun id_equals :: "int \<Rightarrow> jsnum \<Rightarrow> bool" where
  "id_equals i (Fin r) = (of_int i = r)"
| "id_equals i n = False"

definition validTypes :: "string list" where
  "validTypes = [''tuition'', ''exam'', ''library'', ''hostel'']"

definition validStatuses :: "string list" where
  "validStatuses = [''pending'', ''paid'', ''overdue'']"

text \<open>\<open>list.includes(v)\<close> on a list of strings.\<close>

fun js_includes :: "string list \<Rightarrow> jsval \<Rightarrow> bool" where
  "js_includes xs (VStr s) = (s \<in> set xs)"
| "js_includes xs v = False"

text \<open>What a text column holds after \<open>v\<close> was bound to it.\<close>

fun bind_text :: "builtins \<Rightarrow> jsval \<Rightarrow> string option" where
  "bind_text env (VStr s) = Some s"
| "bind_text env v = db_text env v"

text \<open>
  The fields of the update object, one by one (lines 625-630): an absent field leaves
  the column as it is. \<open>None\<close> is the exception of a driver that refuses a value.
\<close>

definition set_studentId :: "store \<Rightarrow> jsval \<Rightarrow> fee \<Rightarrow> fee" where
  "set_studentId db v f =
     (case v of
        VNum n \<Rightarrow> f\<lparr>f_studentId := map_option s_id (find (\<lambda>s. id_equals (s_id s) n) (students db))\<rparr>
      | _ \<Rightarrow> f)"

definition set_amount :: "jsval \<Rightarrow> fee \<Rightarrow> fee" where
  "set_amount v f = (case v of VNum a \<Rightarrow> f\<lparr>f_amount := a\<rparr> | _ \<Rightarrow> f)"

definition set_dueDate :: "builtins \<Rightarrow> jsval \<Rightarrow> fee \<Rightarrow> fee option" where
  "set_dueDate env v f =
     (if v = VUndefined then Some f
      else map_option (\<lambda>d. f\<lparr>f_dueDate := d\<rparr>) (bind_text env v))"

definition set_type :: "jsval \<Rightarrow> fee \<Rightarrow> fee" where
  "set_type v f = (case v of VStr t \<Rightarrow> f\<lparr>f_type := t\<rparr> | _ \<Rightarrow> f)"

definition set_status :: "jsval \<Rightarrow> fee \<Rightarrow> fee" where
  "set_status v f = (case v of VStr st \<Rightarrow> f\<lparr>f_status := st\<rparr> | _ \<Rightarrow> f)"

definition set_paidDate :: "builtins \<Rightarrow> jsval \<Rightarrow> fee \<Rightarrow> fee option" where
  "set_paidDate env v f =
     (if v = VUndefined then Some f
      else if v = VNull then Some (f\<lparr>f_paidDate := None\<rparr>)
      else map_option (\<lambda>d. f\<lparr>f_paidDate := Some d\<rparr>) (bind_text env v))"

definition apply_updates :: "builtins \<Rightarrow> store \<Rightarrow> string \<Rightarrow> jsval \<Rightarrow> fee \<Rightarrow> fee option" where
  "apply_updates env db now body f =
     (case set_dueDate env (prop_of body ''dueDate'')
             (set_amount (prop_of body ''amount'')
                (set_studentId db (prop_of body ''studentId'') (f\<lparr>f_updatedAt := now\<rparr>))) of
        None \<Rightarrow> None
      | Some f1 \<Rightarrow>
          set_paidDate env (prop_of body ''paidDate'')
            (set_status (prop_of body ''status'') (set_type (prop_of body ''type'') f1)))"

text \<open>Lines 556-618: the validation of the fields that the body provides, in order.\<close>

definition fee_update_error :: "builtins \<Rightarrow> store \<Rightarrow> jsval \<Rightarrow> fee_error option" where
  "fee_update_error env db body =
     (let studentId = prop_of body ''studentId'';
          amount = prop_of body ''amount'';
          dueDate = prop_of body ''dueDate'';
          ftype = prop_of body ''type'';
          status = prop_of body ''status'';
          paidDate = prop_of body ''paidDate''
      in if studentId \<noteq> VUndefined \<and> typeof studentId \<noteq> TNumber
         then Some FEES_INVALID_STUDENT_ID
         else if studentId \<noteq> VUndefined
              \<and> (case studentId of
                    VNum n \<Rightarrow> find (\<lambda>s. id_equals (s_id s) n) (students db) = None
                  | _ \<Rightarrow> True)
         then Some FEES_STUDENT_NOT_FOUND
         else if amount \<noteq> VUndefined
              \<and> (case amount of VNum a \<Rightarrow> js_le a (Fin 0) | _ \<Rightarrow> True)
         then Some FEES_INVALID_AMOUNT
         else if dueDate \<noteq> VUndefined \<and> Date_parse_isNaN env dueDate
         then Some FEES_INVALID_DUE_DATE
         else if ftype \<noteq> VUndefined \<and> \<not> js_includes validTypes ftype
         then Some FEES_INVALID_TYPE
         else if status \<noteq> VUndefined \<and> \<not> js_includes validStatuses status
         then Some FEES_INVALID_STATUS
         else if paidDate \<noteq> VUndefined \<and> paidDate \<noteq> VNull \<and> Date_parse_isNaN env paidDate
         then Some FEES_INVALID_PAID_DATE
         else None)"

text \<open>
  The handler. \<open>id_param\<close> is \<open>searchParams.get('id')\<close>. Destructuring \<open>null\<close> throws,
  destructuring any other JSON value does not. The where clause selects by the id, so
  every row of that id receives the update; the response is the first of them.
\<close>

definition PUT_fees ::
  "builtins \<Rightarrow> string \<Rightarrow> string option \<Rightarrow> jsval option \<Rightarrow> store \<Rightarrow> store \<times> (fee_error + fee)" where
  "PUT_fees env now id_param requestBody db =
     (case (case id_param of None \<Rightarrow> None
            | Some i \<Rightarrow> if i = [] then None else parseInt env (VStr i)) of
        None \<Rightarrow> (db, Inl FEES_INVALID_ID)
      | Some feeId \<Rightarrow>
          (case requestBody of
             None \<Rightarrow> (db, Inl FEES_INTERNAL_ERROR)
           | Some body \<Rightarrow>
               if body = VNull \<or> body = VUndefined then (db, Inl FEES_INTERNAL_ERROR)
               else
                 (case find (\<lambda>f. f_id f = feeId) (fees db) of
                    None \<Rightarrow> (db, Inl FEES_NOT_FOUND)
                  | Some f0 \<Rightarrow>
                      (case fee_update_error env db body of
                         Some e \<Rightarrow> (db, Inl e)
                       | None \<Rightarrow>
                           (case apply_updates env db now body f0 of
                              None \<Rightarrow> (db, Inl FEES_INTERNAL_ERROR)
                            | Some updated0 \<Rightarrow>
                                (db\<lparr>fees :=
                                     map (\<lambda>f. if f_id f = feeId
                                              then (case apply_updates env db now body f of
                                                      None \<Rightarrow> f
                                                    | Some f' \<Rightarrow> f')
                                              else f) (fees db)\<rparr>,
                                 Inr updated0))))))"

section \<open>The dashboard handler (GET /api/dashboard)\<close>

text \<open>\<open>Math.round\<close>: the integer nearest to a double, a tie going up.\<close>

fun Math_round :: "jsnum \<Rightarrow> jsnum" where
  "Math_round (Fin x) = Fin (of_int \<lfloor>x + 1 / 2\<rfloor>)"
| "Math_round n = n"

text \<open>
  Lines 107-109 and 194-196: \<open>total > 0 ? Math.round((part / total) * 100) : 0\<close>. The
  two operands are row counts, which the database hands over as numbers (a count is
  far below \<open>2^53\<close>, so it is a double); the quotient and the product are doubles.
\<close>

definition percentage :: "nat \<Rightarrow> nat \<Rightarrow> jsnum" where
  "percentage part_count total_count =
     (if total_count > 0
      then Math_round (js_mul (js_div (Fin (of_nat part_count)) (Fin (of_nat total_count))) (Fin 100))
      else Fin 0)"

text \<open>
  \<open>orderBy(desc(key))\<close>: text is compared byte by byte and \<open>NULL\<close> is below every
  text, which is the order of \<open>string\<close> and of \<open>string option\<close>. The order of rows of
  equal key is the database's choice; the model makes one.
\<close>

definition order_desc :: "('a \<Rightarrow> 'k::linorder) \<Rightarrow> 'a list \<Rightarrow> 'a list" where
  "order_desc key rows = rev (sort_key key rows)"

text \<open>Lines 59-71: the enrollments joined with their student and their course.\<close>

definition join_enrollments :: "store \<Rightarrow> (enrollment \<times> student \<times> course) list" where
  "join_enrollments db =
     [(e, s, c). e \<leftarrow> enrollments db,
                 s \<leftarrow> students db, Some (s_id s) = e_studentId e,
                 c \<leftarrow> courses db, Some (c_id c) = e_courseId e]"

definition recent_enrollment_rows :: "store \<Rightarrow> (enrollment \<times> student \<times> course) list" where
  "recent_enrollment_rows db =
     take 10 (order_desc (\<lambda>(e, s, c). e_createdAt e) (join_enrollments db))"

record recent_enrollment =
  re_id :: int
  re_studentName :: string
  re_courseName :: string
  re_enrollmentDate :: string
  re_status :: string

definition select_enrollment :: "enrollment \<times> student \<times> course \<Rightarrow> recent_enrollment" where
  "select_enrollment row =
     (case row of (e, s, c) \<Rightarrow>
        \<lparr>re_id = e_id e, re_studentName = s_name s, re_courseName = c_title c,
         re_enrollmentDate = e_enrollmentDate e, re_status = e_status e\<rparr>)"

text \<open>Lines 74-87: the paid fees joined with their student.\<close>

definition join_fees :: "store \<Rightarrow> (fee \<times> student) list" where
  "join_fees db = [(f, s). f \<leftarrow> fees db, s \<leftarrow> students db, Some (s_id s) = f_studentId f]"

definition recent_fee_rows :: "store \<Rightarrow> (fee \<times> student) list" where
  "recent_fee_rows db =
     take 10 (order_desc (\<lambda>(f, s). f_paidDate f)
                (filter (\<lambda>(f, s). f_status f = ''paid'') (join_fees db)))"

record recent_fee_payment =
  rf_id :: int
  rf_studentName :: string
  rf_amount :: jsnum
  rf_type :: string
  rf_paidDate :: "string option"
  rf_status :: string

definition select_fee_payment :: "fee \<times> student \<Rightarrow> recent_fee_payment" where
  "select_fee_payment row =
     (case row of (f, s) \<Rightarrow>
        \<lparr>rf_id = f_id f, rf_studentName = s_name s, rf_amount = f_amount f,
         rf_type = f_type f, rf_paidDate = f_paidDate f, rf_status = f_status f\<rparr>)"

text \<open>
  The report, in the parts the properties below are about: the distributions, the fee
  statistics, the performance metrics and \<open>generatedAt\<close> are left out.
\<close>

record enrollment_stats =
  es_total :: nat
  es_active :: nat
  es_completionRate :: jsnum

record recent_activities =
  ra_enrollments :: "recent_enrollment list"
  ra_feePayments :: "recent_fee_payment list"

record attendance_stats =
  as_totalRecords :: nat
  as_presentRecords :: nat
  as_overallPercentage :: jsnum

record dashboard_stats =
  enrollmentStats :: enrollment_stats
  recentActivities :: recent_activities
  attendanceStats :: attendance_stats

definition GET_dashboard :: "store \<Rightarrow> dashboard_stats" where
  "GET_dashboard db =
     (let totalEnrollments = length (enrollments db);
          activeEnrollments = length (filter (\<lambda>e. e_status e = ''active'') (enrollments db));
          recentEnrollments = map select_enrollment (recent_enrollment_rows db);
          recentFeePayments = map select_fee_payment (recent_fee_rows db);
          totalAttendanceRecords = length (attendance db);
          presentRecords = length (filter (\<lambda>a. a_status a = ''present'') (attendance db));
          attendancePercentage = percentage presentRecords totalAttendanceRecords
      in \<lparr>enrollmentStats =
            \<lparr>es_total = totalEnrollments, es_active = activeEnrollments,
             es_completionRate = percentage activeEnrollments totalEnrollments\<rparr>,
          recentActivities =
            \<lparr>ra_enrollments = recentEnrollments, ra_feePayments = recentFeePayments\<rparr>,
          attendanceStats =
            \<lparr>as_totalRecords = totalAttendanceRecords, as_presentRecords = presentRecords,
             as_overallPercentage = attendancePercentage\<rparr>\<rparr>)"

section \<open>The marks handlers (POST and PUT /api/marks)\<close>



















section \<open>The derived fields of a marks row\<close>



section \<open>A sample of the platform functions, for the examples\<close>

text \<open>
  \<open>parseInt\<close> on a string: leading white space is skipped, then an optional sign, then
  the longest prefix of digits (base 16 after \<open>0x\<close>, base 10 otherwise); no digit gives
  NaN. On a number it reads the number's decimal notation, which for magnitudes in
  \<open>[1e-6, 1e21)\<close> is positional, so the result is the number truncated; the sample
  leaves the exponent notation of other magnitudes, and every other kind of value, at
  NaN. The examples below apply it to short digit strings and small numbers only.
\<close>

definition ascii_space :: "char \<Rightarrow> bool" where
  "ascii_space c = (c = CHR '' '' \<or> ((9::nat) \<le> of_char c \<and> of_char c \<le> (13::nat)))"

definition digit_of :: "char \<Rightarrow> nat option" where
  "digit_of c =
     (let n = of_char c :: nat in
      if 48 \<le> n \<and> n \<le> 57 then Some (n - 48)
      else if 97 \<le> n \<and> n \<le> 102 then Some (n - 87)
      else if 65 \<le> n \<and> n \<le> 70 then Some (n - 55)
      else None)"

fun digits_prefix :: "nat \<Rightarrow> string \<Rightarrow> nat list" where
  "digits_prefix radix [] = []"
| "digits_prefix radix (c # cs) =
     (case digit_of c of
        None \<Rightarrow> []
      | Some d \<Rightarrow> if d < radix then d # digits_prefix radix cs else [])"

definition number_of_digits :: "nat \<Rightarrow> nat list \<Rightarrow> int option" where
  "number_of_digits radix ds =
     (if ds = [] then None else Some (int (foldl (\<lambda>acc d. acc * radix + d) 0 ds)))"

fun unsigned_prefix :: "string \<Rightarrow> int option" where
  "unsigned_prefix (a # b # cs) =
     (if a = CHR ''0'' \<and> (b = CHR ''x'' \<or> b = CHR ''X'')
      then number_of_digits 16 (digits_prefix 16 cs)
      else number_of_digits 10 (digits_prefix 10 (a # b # cs)))"
| "unsigned_prefix cs = number_of_digits 10 (digits_prefix 10 cs)"

fun signed_prefix :: "string \<Rightarrow> int option" where
  "signed_prefix [] = None"
| "signed_prefix (c # cs) =
     (if c = CHR ''-'' then map_option uminus (unsigned_prefix cs)
      else if c = CHR ''+'' then unsigned_prefix cs
      else unsigned_prefix (c # cs))"

fun sample_parseInt :: "jsval \<Rightarrow> int option" where
  "sample_parseInt (VStr s) = signed_prefix (dropWhile ascii_space s)"
| "sample_parseInt (VNum (Fin r)) =
     (if r = 0 then Some 0
      else if 1 / 10 ^ 6 \<le> \<bar>r\<bar> \<and> \<bar>r\<bar> < 10 ^ 21
      then Some (if r < 0 then - \<lfloor>- r\<rfloor> else \<lfloor>r\<rfloor>)
      else None)"
| "sample_parseInt v = None"

text \<open>\<open>trim\<close> for ASCII white space.\<close>

definition sample_trim :: "string \<Rightarrow> string" where
  "sample_trim s = rev (dropWhile ascii_space (rev (dropWhile ascii_space s)))"

text \<open>
  No example passes a date or binds a value that is not a string to a text column, so
  the sample is silent on both: it takes no date for valid, and binds no such value.
\<close>

definition sample_builtins :: builtins where
  "sample_builtins =
     \<lparr>parseInt = sample_parseInt,
      Date_parse_isNaN = (\<lambda>v. True),
      db_text = (\<lambda>v. None),
      String_trim = sample_trim\<rparr>"

section \<open>Example data\<close>

text \<open>The scenario of the specification: fee 1 of 500.00, pending, owed by student 7.\<close>

definition ex_student :: student where
  "ex_student =
     \<lparr>s_id = 7, s_name = ''Asha Rao'', s_balance = Some (Fin 1200), s_status = ''active'',
      s_createdAt = ''2024-01-10T09:00:00.000Z'', s_updatedAt = ''2024-01-10T09:00:00.000Z''\<rparr>"

definition ex_fee :: fee where
  "ex_fee =
     \<lparr>f_id = 1, f_studentId = Some 7, f_amount = Fin 500, f_dueDate = ''2024-06-30'',
      f_paidDate = None, f_status = ''pending'', f_type = ''tuition'',
      f_createdAt = ''2024-02-01T09:00:00.000Z'', f_updatedAt = ''2024-02-01T09:00:00.000Z''\<rparr>"

definition ex_store :: store where
  "ex_store =
     \<lparr>fees = [ex_fee], students = [ex_student], courses = [], enrollments = [],
      attendance = [], marks = []\<rparr>"

definition ex_request :: "jsval option" where
  "ex_request =
     Some (VObj [(''amount_paid'', VNum (Fin 500)), (''payment_method'', VStr ''cash''),
                 (''transaction_id'', VStr ''TXN-001'')])"

definition ex_now :: string where
  "ex_now = ''2024-05-01T10:00:00.000Z''"

definition ex_paid_store :: store where
  "ex_paid_store =
     ex_store
       \<lparr>fees := [ex_fee\<lparr>f_status := ''paid'', f_paidDate := Some ex_now, f_updatedAt := ex_now\<rparr>],
        students := [ex_student\<lparr>s_balance := Some (Fin 700), s_updatedAt := ex_now\<rparr>]\<rparr>"

definition ex_replay :: "jsval option" where
  "ex_replay =
     Some (VObj [(''amount_paid'', VNum (Fin 500)), (''payment_method'', VStr ''cash''),
                 (''transaction_id'', VStr ''TXN-002'')])"

definition ex_later :: string where
  "ex_later = ''2024-05-01T10:05:00.000Z''"

definition ex_fee300 :: fee where
  "ex_fee300 =
     \<lparr>f_id = 2, f_studentId = Some 7, f_amount = Fin 300, f_dueDate = ''2024-07-31'',
      f_paidDate = None, f_status = ''overdue'', f_type = ''exam'',
      f_createdAt = ''2024-03-01T09:00:00.000Z'', f_updatedAt = ''2024-03-01T09:00:00.000Z''\<rparr>"

definition ex_store300 :: store where
  "ex_store300 = ex_store\<lparr>fees := [ex_fee, ex_fee300]\<rparr>"

definition ex_request250 :: "jsval option" where
  "ex_request250 =
     Some (VObj [(''amount_paid'', VNum (Fin 250)), (''payment_method'', VStr ''card''),
                 (''transaction_id'', VStr ''TXN-003'')])"

definition ex_request_zero :: "jsval option" where
  "ex_request_zero =
     Some (VObj [(''amount_paid'', VNum (Fin 0)), (''payment_method'', VStr ''cash''),
                 (''transaction_id'', VStr ''TXN-004'')])"

definition ex_request_infinity :: "jsval option" where
  "ex_request_infinity =
     Some (VObj [(''amount_paid'', VNum PInf), (''payment_method'', VStr ''cash''),
                 (''transaction_id'', VStr ''TXN-005'')])"

text \<open>
  Amounts with cents: fee 3 of 300.20, owed by student 8 whose balance is 1000.10, and
  fee 4 of 0.01. The numbers are the doubles that the literals denote.
\<close>

definition ex_cents_student :: student where
  "ex_cents_student =
     \<lparr>s_id = 8, s_name = ''Ben Okoro'', s_balance = Some (js_literal (10001 / 10)),
      s_status = ''active'', s_createdAt = ''2024-01-11T09:00:00.000Z'',
      s_updatedAt = ''2024-01-11T09:00:00.000Z''\<rparr>"

definition ex_cents_fee :: fee where
  "ex_cents_fee =
     \<lparr>f_id = 3, f_studentId = Some 8, f_amount = js_literal (3002 / 10),
      f_dueDate = ''2024-06-30'', f_paidDate = None, f_status = ''pending'', f_type = ''hostel'',
      f_createdAt = ''2024-02-02T09:00:00.000Z'', f_updatedAt = ''2024-02-02T09:00:00.000Z''\<rparr>"

definition ex_small_fee :: fee where
  "ex_small_fee =
     \<lparr>f_id = 4, f_studentId = Some 8, f_amount = js_literal (1 / 100),
      f_dueDate = ''2024-06-30'', f_paidDate = None, f_status = ''pending'', f_type = ''library'',
      f_createdAt = ''2024-02-03T09:00:00.000Z'', f_updatedAt = ''2024-02-03T09:00:00.000Z''\<rparr>"

definition ex_cents_store :: store where
  "ex_cents_store =
     \<lparr>fees = [ex_cents_fee, ex_small_fee], students = [ex_cents_student], courses = [],
      enrollments = [], attendance = [], marks = []\<rparr>"

definition ex_cents_request :: "jsval option" where
  "ex_cents_request =
     Some (VObj [(''amount_paid'', VNum (js_literal (3002 / 10))),
                 (''payment_method'', VStr ''transfer''), (''transaction_id'', VStr ''TXN-006'')])"

definition ex_small_request :: "jsval option" where
  "ex_small_request =
     Some (VObj [(''amount_paid'', VNum (js_literal (2 / 100))),
                 (''payment_method'', VStr ''cash''), (''transaction_id'', VStr ''TXN-007'')])"

definition ex_revert :: "jsval option" where
  "ex_revert =
     Some (VObj [(''status'', VStr ''pending''), (''amount'', VNum (Fin 1)), (''paidDate'', VNull)])"

definition ex_set_paid :: "jsval option" where
  "ex_set_paid = Some (VObj [(''status'', VStr ''paid'')])"

text \<open>
  Two requests for fee 1 that overlap: both select, the first then writes the fee and
  the student and answers; after that the second writes the fee and the student.
\<close>

definition ex_overlap_mid :: "call_state \<times> call_state \<times> store" where
  "ex_overlap_mid =
     run_schedule sample_builtins [False, True, False, False]
       (Ready (Some ''admin'') ''1'' ex_request ex_now,
        Ready (Some ''clerk'') ''1'' ex_replay ex_later,
        ex_store)"

definition ex_overlap :: "call_state \<times> call_state \<times> store" where
  "ex_overlap = run_schedule sample_builtins [True, True] ex_overlap_mid"

text \<open>A campus with three enrollments, two paid fees and no attendance record.\<close>

definition ex_enrollment :: "int \<Rightarrow> string \<Rightarrow> string \<Rightarrow> enrollment" where
  "ex_enrollment i st created =
     \<lparr>e_id = i, e_studentId = Some 7, e_courseId = Some 3, e_enrollmentDate = ''2024-01-15'',
      e_status = st, e_createdAt = created, e_updatedAt = created\<rparr>"

definition ex_course :: course where
  "ex_course = \<lparr>c_id = 3, c_title = ''Algebra'', c_code = ''MA101''\<rparr>"

definition ex_campus :: store where
  "ex_campus =
     \<lparr>fees =
        [ex_fee\<lparr>f_status := ''paid'', f_paidDate := Some ''2024-05-01T10:00:00.000Z''\<rparr>,
         ex_fee300\<lparr>f_status := ''paid'', f_paidDate := Some ''2024-04-01T10:00:00.000Z''\<rparr>],
      students = [ex_student],
      courses = [ex_course],
      enrollments =
        [ex_enrollment 1 ''active'' ''2024-01-15T08:00:00.000Z'',
         ex_enrollment 2 ''dropped'' ''2024-02-15T08:00:00.000Z'',
         ex_enrollment 3 ''active'' ''2024-03-15T08:00:00.000Z''],
      attendance = [],
      marks = []\<rparr>"

text \<open>The campus after a term: 40 attendance records, 23 of them present.\<close>

definition ex_attendance :: "string \<Rightarrow> nat \<Rightarrow> attendance_row" where
  "ex_attendance st i =
     \<lparr>a_id = int i, a_studentId = Some 7, a_courseId = Some 3, a_date = ''2024-03-04'',
      a_status = st, a_session = ''morning''\<rparr>"

definition ex_term :: store where
  "ex_term =
     ex_campus
       \<lparr>attendance :=
          map (ex_attendance ''present'') [1..<24] @ map (ex_attendance ''absent'') [24..<41]\<rparr>"



section \<open>Rounding to the nearest double\<close>

lemma binade_bounds:
  assumes "0 < x"
  shows "2 powi binade x \<le> x" and "x < 2 powi (binade x + 1)"
proof -
  show "2 powi binade x \<le> x"
  proof (cases "1 \<le> x")
    case True
    then have p: "0 < \<lfloor>x\<rfloor>" by linarith
    from bitlen_bounds[OF p] have "2 ^ nat (bitlen \<lfloor>x\<rfloor> - 1) \<le> \<lfloor>x\<rfloor>" by blast
    then have "(of_int (2 ^ nat (bitlen \<lfloor>x\<rfloor> - 1)) :: rat) \<le> of_int \<lfloor>x\<rfloor>"
      by (simp only: of_int_le_iff)
    then have "(2::rat) ^ nat (bitlen \<lfloor>x\<rfloor> - 1) \<le> x" by (simp add: le_floor_iff)
    moreover from p have "1 \<le> bitlen \<lfloor>x\<rfloor>"
      using bitlen_eq_zero_iff[of "\<lfloor>x\<rfloor>"] bitlen_nonneg[of "\<lfloor>x\<rfloor>"] by linarith
    ultimately show ?thesis using True by (simp add: binade_def power_int_nonneg_exp)
  next
    case False
    let ?n = "\<lceil>1 / x\<rceil>"
    let ?k = "bitlen (?n - 1)"
    from False assms have y: "1 < 1 / x" by (simp add: field_simps)
    then have n: "0 < ?n - 1" by linarith
    from bitlen_bounds[OF n] have "?n - 1 < 2 ^ nat ?k" by blast
    then have "?n \<le> 2 ^ nat ?k" by linarith
    then have "(of_int ?n :: rat) \<le> 2 ^ nat ?k" by simp
    then have "1 / x \<le> 2 ^ nat ?k" using le_of_int_ceiling[of "1 / x"] by linarith
    then have "1 / 2 ^ nat ?k \<le> x" using assms by (simp add: field_simps)
    moreover have "0 \<le> ?k" by (rule bitlen_nonneg)
    ultimately show ?thesis using False
      by (simp add: binade_def power_int_minus_divide power_int_nonneg_exp)
  qed
  show "x < 2 powi (binade x + 1)"
  proof (cases "1 \<le> x")
    case True
    then have p: "0 < \<lfloor>x\<rfloor>" by linarith
    from bitlen_bounds[OF p] have "\<lfloor>x\<rfloor> < 2 ^ nat (bitlen \<lfloor>x\<rfloor>)" by blast
    then have "\<lfloor>x\<rfloor> + 1 \<le> 2 ^ nat (bitlen \<lfloor>x\<rfloor>)" by linarith
    then have "(of_int (\<lfloor>x\<rfloor> + 1) :: rat) \<le> of_int (2 ^ nat (bitlen \<lfloor>x\<rfloor>))"
      by (simp only: of_int_le_iff)
    then have "x < 2 ^ nat (bitlen \<lfloor>x\<rfloor>)" by (simp) linarith
    moreover have "0 \<le> bitlen \<lfloor>x\<rfloor>" by (rule bitlen_nonneg)
    ultimately show ?thesis using True by (simp add: binade_def power_int_nonneg_exp)
  next
    case False
    let ?n = "\<lceil>1 / x\<rceil>"
    let ?k = "bitlen (?n - 1)"
    from False assms have y: "1 < 1 / x" by (simp add: field_simps)
    then have n: "0 < ?n - 1" by linarith
    then have k: "1 \<le> ?k"
      using bitlen_eq_zero_iff[of "?n - 1"] bitlen_nonneg[of "?n - 1"] by linarith
    from bitlen_bounds[OF n] have "2 ^ nat (?k - 1) \<le> ?n - 1" by blast
    then have "(of_int (2 ^ nat (?k - 1)) :: rat) \<le> of_int (?n - 1)" by (simp only: of_int_le_iff)
    moreover have "of_int (?n - 1) < 1 / x" by linarith
    ultimately have "2 ^ nat (?k - 1) < 1 / x" by simp
    then have "x < 1 / 2 ^ nat (?k - 1)" using assms by (simp add: field_simps)
    moreover have "(2::rat) powi (- ?k + 1) = 1 / 2 ^ nat (?k - 1)"
    proof -
      have "(2::rat) powi (- ?k + 1) = 2 powi (- (?k - 1))" by simp
      also have "\<dots> = 1 / 2 powi (?k - 1)" by (rule power_int_minus_divide)
      also have "\<dots> = 1 / 2 ^ nat (?k - 1)" using k by (simp add: power_int_nonneg_exp)
      finally show ?thesis .
    qed
    ultimately show ?thesis using False by (simp add: binade_def)
  qed
qed

lemma binade_unique:
  assumes "0 < x" "2 powi e \<le> x" "x < 2 powi (e + 1)"
  shows "binade x = e"
proof (rule antisym)
  show "binade x \<le> e"
  proof (rule ccontr)
    assume "\<not> binade x \<le> e"
    then have "e + 1 \<le> binade x" by simp
    then have "(2::rat) powi (e + 1) \<le> 2 powi binade x" by (intro power_int_increasing) simp_all
    with binade_bounds(1)[OF assms(1)] assms(3) show False by linarith
  qed
  show "e \<le> binade x"
  proof (rule ccontr)
    assume "\<not> e \<le> binade x"
    then have "binade x + 1 \<le> e" by simp
    then have "(2::rat) powi (binade x + 1) \<le> 2 powi e" by (intro power_int_increasing) simp_all
    with binade_bounds(2)[OF assms(1)] assms(2) show False by linarith
  qed
qed

lemma binade_mono:
  assumes "0 < x" "x \<le> y"
  shows "binade x \<le> binade y"
proof (rule ccontr)
  assume "\<not> binade x \<le> binade y"
  then have "binade y + 1 \<le> binade x" by simp
  then have "(2::rat) powi (binade y + 1) \<le> 2 powi binade x" by (intro power_int_increasing) simp_all
  moreover from assms have "0 < y" by simp
  ultimately show False
    using binade_bounds(1)[OF assms(1)] binade_bounds(2)[OF \<open>0 < y\<close>] assms(2) by linarith
qed

lemma round_half_even_near: "\<bar>of_int (round_half_even y) - y\<bar> \<le> 1 / 2"
proof -
  have "of_int \<lfloor>y\<rfloor> \<le> y" "y < of_int \<lfloor>y\<rfloor> + 1" by linarith+
  then show ?thesis unfolding round_half_even_def Let_def
    by (auto simp: abs_if) (use of_int_floor_le[of y] in linarith)+
qed

lemma round_half_even_of_int: "round_half_even (of_int n) = n"
  by (simp add: round_half_even_def)

lemma round_half_even_le:
  assumes "y \<le> of_int N"
  shows "round_half_even y \<le> N"
proof -
  have f: "\<lfloor>y\<rfloor> \<le> N" using assms by linarith
  show ?thesis
  proof (cases "\<lfloor>y\<rfloor> = N")
    case True
    with assms have "y - of_int \<lfloor>y\<rfloor> \<le> 0" by simp
    then show ?thesis using True by (simp add: round_half_even_def Let_def)
  next
    case False
    with f have "\<lfloor>y\<rfloor> + 1 \<le> N" by simp
    then show ?thesis using f by (simp add: round_half_even_def Let_def)
  qed
qed

lemma round_half_even_nonneg:
  assumes "0 \<le> y"
  shows "0 \<le> round_half_even y"
proof -
  from assms have "0 \<le> \<lfloor>y\<rfloor>" by simp
  then show ?thesis by (simp add: round_half_even_def Let_def)
qed

lemma round_half_even_between:
  assumes "of_int m - 1 / 2 < y" "y < of_int m + 1 / 2"
  shows "round_half_even y = m"
proof (cases "of_int m \<le> y")
  case True
  with assms have "\<lfloor>y\<rfloor> = m" by linarith
  with assms show ?thesis by (simp add: round_half_even_def Let_def)
next
  case False
  with assms have "\<lfloor>y\<rfloor> = m - 1" by linarith
  with assms False show ?thesis by (simp add: round_half_even_def Let_def)
qed

lemma round_half_even_tie:
  "round_half_even (of_int m + 1 / 2) = (if even m then m else m + 1)"
proof -
  have "\<lfloor>of_int m + (1 / 2 :: rat)\<rfloor> = m" by (simp add: floor_eq_iff)
  then show ?thesis by (simp add: round_half_even_def)
qed


lemma quantum_le:
  assumes "x \<noteq> 0" "\<bar>x\<bar> < 2 powi (53 + q)" "- 1074 \<le> q"
  shows "quantum x \<le> q"
proof -
  from assms(1) have pos: "0 < \<bar>x\<bar>" by simp
  have "binade \<bar>x\<bar> < 53 + q"
  proof (rule ccontr)
    assume "\<not> binade \<bar>x\<bar> < 53 + q"
    then have "(2::rat) powi (53 + q) \<le> 2 powi binade \<bar>x\<bar>"
      by (intro power_int_increasing) simp_all
    with binade_bounds(1)[OF pos] assms(2) show False by linarith
  qed
  with assms(3) show ?thesis by (simp add: quantum_def)
qed

lemma quantum_ge: "- 1074 \<le> quantum x"
  by (simp add: quantum_def)

lemma power_int_split:
  assumes "q0 \<le> q"
  shows "(2::rat) powi q = of_int (2 ^ nat (q - q0)) * 2 powi q0"
proof -
  have "(2::rat) powi q = 2 powi ((q - q0) + q0)" by simp
  also have "\<dots> = 2 powi (q - q0) * 2 powi q0" by (rule power_int_add) simp
  also have "(2::rat) powi (q - q0) = 2 ^ nat (q - q0)"
    using assms by (simp add: power_int_nonneg_exp)
  finally show ?thesis by simp
qed

lemma round_to_double_exact:
  assumes "\<bar>m\<bar> < 2 ^ 53" "- 1074 \<le> q" "\<bar>of_int m * 2 powi q\<bar> < (2::rat) ^ 1024"
  shows "round_to_double (of_int m * 2 powi q) = Fin (of_int m * 2 powi q)"
proof (cases "m = 0")
  case True
  then show ?thesis by (simp add: round_to_double_def)
next
  case False
  let ?x = "of_int m * 2 powi q :: rat"
  have p: "(0::rat) < 2 powi q0" for q0 by (simp add: zero_less_power_int)
  have nz: "?x \<noteq> 0" using False by simp
  have ax: "\<bar>?x\<bar> = of_int \<bar>m\<bar> * 2 powi q"
    by (simp add: abs_mult power_int_abs)
  have "(of_int \<bar>m\<bar> :: rat) < 2 ^ 53" using assms(1) by (simp flip: of_int_abs)
  then have "\<bar>?x\<bar> < 2 ^ 53 * 2 powi q" unfolding ax using p[of q] by simp
  also have "(2::rat) ^ 53 * 2 powi q = 2 powi (53 + q)"
    by (simp add: power_int_add)
  finally have "quantum ?x \<le> q" using nz assms(2) by (intro quantum_le)
  note sp = power_int_split[OF this]
  have "\<bar>?x\<bar> / 2 powi quantum ?x = of_int (\<bar>m\<bar> * 2 ^ nat (q - quantum ?x))"
    unfolding ax using p[of "quantum ?x"] by (subst sp) simp
  then have r: "round_half_even (\<bar>?x\<bar> / 2 powi quantum ?x) = \<bar>m\<bar> * 2 ^ nat (q - quantum ?x)"
    by (simp only: round_half_even_of_int)
  have bk: "of_int (\<bar>m\<bar> * 2 ^ nat (q - quantum ?x)) * 2 powi quantum ?x = \<bar>?x\<bar>"
    unfolding ax by (subst (2) sp) simp
  have "sgn ?x * \<bar>?x\<bar> = ?x" by (simp add: sgn_mult_abs)
  with assms(3) nz show ?thesis
    unfolding round_to_double_def Let_def r bk by simp
qed

lemma round_to_double_of_int:
  assumes "\<bar>m\<bar> < 2 ^ 53"
  shows "round_to_double (of_int m) = Fin (of_int m)"
proof -
  have "\<bar>of_int m :: rat\<bar> < 2 ^ 53" using assms by (simp flip: of_int_abs)
  also have "(2::rat) ^ 53 < 2 ^ 1024" by simp
  finally show ?thesis using round_to_double_exact[OF assms, of 0] by simp
qed

lemma round_to_double_le:
  assumes "0 \<le> z" "z \<le> of_int m * 2 powi q" "0 \<le> m" "m < 2 ^ 53" "- 1074 \<le> q"
    and "of_int m * 2 powi q < (2::rat) ^ 1024"
  shows "\<exists>r. round_to_double z = Fin r \<and> 0 \<le> r \<and> r \<le> of_int m * 2 powi q"
proof (cases "z = 0")
  case True
  with assms show ?thesis by (simp add: round_to_double_def)
next
  case False
  let ?B = "of_int m * 2 powi q :: rat"
  have p: "(0::rat) < 2 powi q0" for q0 by (simp add: zero_less_power_int)
  from False assms(1) have z: "0 < z" by simp
  have "(of_int m :: rat) < 2 ^ 53" using assms(4) by simp
  then have "?B < 2 ^ 53 * 2 powi q" using p[of q] by simp
  also have "(2::rat) ^ 53 * 2 powi q = 2 powi (53 + q)" by (simp add: power_int_add)
  finally have "\<bar>z\<bar> < 2 powi (53 + q)" using z assms(2) by simp
  with False assms(5) have "quantum z \<le> q" by (intro quantum_le)
  note sp = power_int_split[OF this]
  let ?N = "m * 2 ^ nat (q - quantum z)"
  have B: "?B = of_int ?N * 2 powi quantum z" by (subst sp) simp
  have "\<bar>z\<bar> / 2 powi quantum z \<le> of_int ?N"
    using assms(2) z p[of "quantum z"] unfolding B by (simp add: field_simps)
  then have le: "round_half_even (\<bar>z\<bar> / 2 powi quantum z) \<le> ?N" by (rule round_half_even_le)
  have "0 \<le> \<bar>z\<bar> / 2 powi quantum z" using p[of "quantum z"] by simp
  then have ge: "0 \<le> round_half_even (\<bar>z\<bar> / 2 powi quantum z)" by (rule round_half_even_nonneg)
  let ?r = "of_int (round_half_even (\<bar>z\<bar> / 2 powi quantum z)) * 2 powi quantum z :: rat"
  have "(of_int (round_half_even (\<bar>z\<bar> / 2 powi quantum z)) :: rat) \<le> of_int ?N"
    using le by (simp only: of_int_le_iff)
  then have rB: "?r \<le> ?B" unfolding B using p[of "quantum z"] by simp
  have r0: "0 \<le> ?r" using ge p[of "quantum z"] by simp
  from rB assms(6) have "\<not> 2 ^ 1024 \<le> ?r" by simp
  with z rB r0 show ?thesis
    unfolding round_to_double_def Let_def by simp
qed

lemma round_to_double_abs: "Math_abs (round_to_double x) = round_to_double \<bar>x\<bar>"
proof (cases "x = 0")
  case True
  then show ?thesis by (simp add: round_to_double_def)
next
  case False
  have p: "(0::rat) < 2 powi q0" for q0 by (simp add: zero_less_power_int)
  define M where "M = of_int (round_half_even (\<bar>x\<bar> / 2 powi quantum x)) * (2 powi quantum x :: rat)"
  have "0 \<le> \<bar>x\<bar> / 2 powi quantum x" using p[of "quantum x"] by simp
  then have "0 \<le> round_half_even (\<bar>x\<bar> / 2 powi quantum x)" by (rule round_half_even_nonneg)
  then have M0: "0 \<le> M" unfolding M_def using p[of "quantum x"] by simp
  have q: "quantum \<bar>x\<bar> = quantum x" by (simp add: quantum_def)
  have 1: "round_to_double x
             = (if 2 ^ 1024 \<le> M then (if 0 < x then PInf else NInf) else Fin (sgn x * M))"
    using False unfolding round_to_double_def Let_def M_def by simp
  have 2: "round_to_double \<bar>x\<bar> = (if 2 ^ 1024 \<le> M then PInf else Fin M)"
    using False unfolding round_to_double_def Let_def M_def q by simp
  show ?thesis unfolding 1 2 using M0 False by (simp add: abs_mult abs_sgn_eq)
qed

lemma round_to_double_eq:
  assumes "0 < x" "2 powi e \<le> x" "x < 2 powi (e + 1)"
    and "round_half_even (x / 2 powi max (e - 52) (- 1074)) = m"
    and "of_int m * 2 powi max (e - 52) (- 1074) < (2::rat) ^ 1024"
  shows "round_to_double x = Fin (of_int m * 2 powi max (e - 52) (- 1074))"
proof -
  from binade_unique[OF assms(1-3)] assms(1) have "quantum x = max (e - 52) (- 1074)"
    by (simp add: quantum_def)
  with assms show ?thesis
    unfolding round_to_double_def Let_def by simp
qed

lemma round_to_double_error:
  assumes "round_to_double x = Fin r"
  shows "\<bar>r - x\<bar> \<le> max (\<bar>x\<bar> / 2 ^ 53) (1 / 2 ^ 1075)"
proof (cases "x = 0")
  case True
  with assms show ?thesis by (simp add: round_to_double_def)
next
  case False
  have p: "(0::rat) < 2 powi q0" for q0 by (simp add: zero_less_power_int)
  let ?q = "quantum x"
  let ?m = "round_half_even (\<bar>x\<bar> / 2 powi ?q)"
  from assms False have r: "r = sgn x * (of_int ?m * 2 powi ?q)"
    unfolding round_to_double_def Let_def by (simp split: if_splits)
  have "\<bar>r - x\<bar> = \<bar>sgn x * (of_int ?m * 2 powi ?q - \<bar>x\<bar>)\<bar>"
    unfolding r by (simp add: right_diff_distrib sgn_mult_abs)
  also have "\<dots> = \<bar>of_int ?m * 2 powi ?q - \<bar>x\<bar>\<bar>"
    using False by (simp add: abs_mult abs_sgn_eq)
  also have "of_int ?m * 2 powi ?q - \<bar>x\<bar> = (of_int ?m - \<bar>x\<bar> / 2 powi ?q) * 2 powi ?q"
    using p[of ?q] by (simp add: field_simps)
  also have "\<bar>\<dots>\<bar> = \<bar>of_int ?m - \<bar>x\<bar> / 2 powi ?q\<bar> * 2 powi ?q"
    using p[of ?q] by (simp add: abs_mult)
  also have "\<dots> \<le> 1 / 2 * 2 powi ?q"
    using round_half_even_near[of "\<bar>x\<bar> / 2 powi ?q"] p[of ?q] by (intro mult_right_mono) simp_all
  finally have e: "\<bar>r - x\<bar> \<le> 1 / 2 * 2 powi ?q" .
  show ?thesis
  proof (cases "- 1074 \<le> binade \<bar>x\<bar> - 52")
    case True
    then have "?q = binade \<bar>x\<bar> - 52" by (simp add: quantum_def)
    then have "(2::rat) powi ?q = 2 powi binade \<bar>x\<bar> / 2 ^ 52"
      by (simp add: power_int_diff)
    moreover have "2 powi binade \<bar>x\<bar> \<le> \<bar>x\<bar>" using False by (intro binade_bounds) simp
    ultimately have "1 / 2 * 2 powi ?q \<le> \<bar>x\<bar> / 2 ^ 53" by (simp add: field_simps)
    with e have "\<bar>r - x\<bar> \<le> \<bar>x\<bar> / 2 ^ 53" by (rule order_trans)
    then show ?thesis by (rule max.coboundedI1)
  next
    case False
    then have "?q = - 1074" by (simp add: quantum_def)
    then have "1 / 2 * (2::rat) powi ?q = 1 / 2 ^ 1075" by (simp add: power_int_minus_divide)
    with e have "\<bar>r - x\<bar> \<le> 1 / 2 ^ 1075" by simp
    then show ?thesis by (rule max.coboundedI2)
  qed
qed


lemma round_to_double_near:
  assumes "0 < x" "2 powi e \<le> x" "x < 2 powi (e + 1)"
    and "of_int m - 1 / 2 < x / 2 powi max (e - 52) (- 1074)"
    and "x / 2 powi max (e - 52) (- 1074) < of_int m + 1 / 2"
    and "of_int m * 2 powi max (e - 52) (- 1074) < (2::rat) ^ 1024"
  shows "round_to_double x = Fin (of_int m * 2 powi max (e - 52) (- 1074))"
  using assms(1-3) round_half_even_between[OF assms(4,5)] assms(6) by (rule round_to_double_eq)

lemma round_to_double_tie:
  assumes "0 < x" "2 powi e \<le> x" "x < 2 powi (e + 1)"
    and "x / 2 powi max (e - 52) (- 1074) = of_int m + 1 / 2"
    and "of_int (if even m then m else m + 1) * 2 powi max (e - 52) (- 1074) < (2::rat) ^ 1024"
  shows "round_to_double x
           = Fin (of_int (if even m then m else m + 1) * 2 powi max (e - 52) (- 1074))"
proof -
  have "round_half_even (x / 2 powi max (e - 52) (- 1074)) = (if even m then m else m + 1)"
    unfolding assms(4) by (rule round_half_even_tie)
  with assms(1-3) show ?thesis using assms(5) by (rule round_to_double_eq)
qed

section \<open>Helper lemmas\<close>

lemma find_Some_filter:
  "find P xs = Some x \<Longrightarrow> \<exists>ys. filter P xs = x # ys"
  by (induction xs) (auto split: if_splits)

lemma filter_empty_map_id:
  "filter P xs = [] \<Longrightarrow> map (\<lambda>x. if P x then g x else x) xs = xs"
  by (induction xs) (auto split: if_splits)

lemma js_gt_not_le: "js_gt a (Fin 0) \<Longrightarrow> \<not> js_le a (Fin 0)"
  by (cases a) auto

lemma js_le_not_gt: "js_le d b \<Longrightarrow> \<not> js_gt d b"
  by (cases d; cases b) auto

lemma validate_body_ok:
  assumes "map_of kvs ''userId'' = None" "map_of kvs ''user_id'' = None"
    and "map_of kvs ''amount_paid'' = Some (VNum a)" "\<not> js_le a (Fin 0)"
    and "map_of kvs ''payment_method'' = Some (VStr m)" "m \<noteq> []"
    and "map_of kvs ''transaction_id'' = Some (VStr t)" "t \<noteq> []"
  shows "validate_body (Some (VObj kvs)) = Inr (a, m, t)"
  using assms by (simp add: validate_body_def)

lemma update_fee_paid_found:
  assumes "find (\<lambda>f. f_id f = feeId) (fees db) = Some fee"
  shows "\<exists>rest. update_fee_paid db feeId now =
     (db\<lparr>fees := map (\<lambda>f. if f_id f = feeId then mark_paid now f else f) (fees db)\<rparr>,
      mark_paid now fee # rest)"
proof -
  from find_Some_filter[OF assms] obtain ys where "filter (\<lambda>f. f_id f = feeId) (fees db) = fee # ys"
    by blast
  then show ?thesis by (simp add: update_fee_paid_def)
qed

lemma find_fee_after:
  "find (\<lambda>f. f_id f = feeId) (map (\<lambda>f. if f_id f = feeId then mark_paid now f else f) fs)
     = map_option (mark_paid now) (find (\<lambda>f. f_id f = feeId) fs)"
  by (induction fs) (auto simp: mark_paid_def)

lemma find_student_after:
  "find (\<lambda>s. Some (s_id s) = k)
        (map (\<lambda>s. if s_id s = i then s\<lparr>s_balance := b, s_updatedAt := now\<rparr> else s) ss)
     = map_option (\<lambda>s. if s_id s = i then s\<lparr>s_balance := b, s_updatedAt := now\<rparr> else s)
         (find (\<lambda>s. Some (s_id s) = k) ss)"
  by (induction ss) auto

lemma round_to_double_numeral:
  "numeral n < (2::int) ^ 53 \<Longrightarrow> round_to_double (numeral n) = Fin (numeral n)"
  using round_to_double_of_int[of "numeral n"] by simp

lemma round_to_double_zero: "round_to_double 0 = Fin 0"
  by (simp add: round_to_double_def)

lemma hundredth: "js_literal (1 / 100) = Fin (5764607523034235 / 576460752303423488)"
  unfolding js_literal_def
  using round_to_double_near[of "1 / 100" "- 7" 5764607523034235] by simp

lemmas double_eval = round_to_double_numeral round_to_double_zero hundredth

lemma within_hundredth:
  assumes "\<bar>x - y\<bar> \<le> 1 / 100"
  shows "\<not> js_gt (Math_abs (js_sub (Fin x) (Fin y))) (js_literal (1 / 100))"
proof -
  have "\<bar>x - y\<bar> \<le> of_int 5764607523034235 * 2 powi (- 59)"
    using assms by simp
  from round_to_double_le[OF _ this] obtain r where
    "round_to_double \<bar>x - y\<bar> = Fin r" "r \<le> of_int 5764607523034235 * 2 powi (- 59)"
    by auto
  then show ?thesis by (simp add: round_to_double_abs hundredth)
qed

lemmas sample_eval =
  sample_builtins_def sample_trim_def ascii_space_def digit_of_def number_of_digits_def

section \<open>Recording a payment\<close>

text \<open>
  C1. For a fee that exists with status pending or overdue and whose student exists, and
  a request of an authenticated user whose \<open>amount_paid\<close> is a positive number within
  0.01 of the fee's amount and whose \<open>payment_method\<close> and \<open>transaction_id\<close> are
  non-empty strings (and whose body carries no user id), the handler answers 200;
  afterwards the fee is paid with \<open>paidDate\<close> and \<open>updatedAt\<close> the current time, the
  student's balance is its prior value (\<open>null\<close> counting as 0) minus the amount, and
  the response reports the balance before and after. The difference is the one that
  JavaScript computes: the double nearest to the exact difference, which is the exact
  difference whenever that is a double (as 1200 - 500 is) and is otherwise off by at
  most one part in \<open>2^53\<close>.
\<close>

theorem payment_succeeds:
  assumes auth: "user = Some user_id"
    and ident: "id_param \<noteq> []" "parseInt env (VStr id_param) = Some feeId"
    and body: "requestBody = Some (VObj kvs)"
      "map_of kvs ''userId'' = None" "map_of kvs ''user_id'' = None"
    and amount: "map_of kvs ''amount_paid'' = Some (VNum a)" "js_gt a (Fin 0)"
    and meth: "map_of kvs ''payment_method'' = Some (VStr m)" "m \<noteq> []"
    and txn: "map_of kvs ''transaction_id'' = Some (VStr t)" "t \<noteq> []"
    and fee: "find (\<lambda>f. f_id f = feeId) (fees db) = Some fee"
      "f_status fee = ''pending'' \<or> f_status fee = ''overdue''"
    and student: "find (\<lambda>s. Some (s_id s) = f_studentId fee) (students db) = Some student"
    and close: "js_le (Math_abs (js_sub a (f_amount fee))) (js_literal (1 / 100))"
  shows "\<exists>db' resp.
      PUT_payment env now user id_param requestBody db = (db', Inr resp)
    \<and> find (\<lambda>f. f_id f = feeId) (fees db')
        = Some (fee\<lparr>f_status := ''paid'', f_paidDate := Some now, f_updatedAt := now\<rparr>)
    \<and> find (\<lambda>s. Some (s_id s) = f_studentId fee) (students db')
        = Some (student\<lparr>s_balance := Some (js_sub (balance_or_0 (s_balance student)) a),
                        s_updatedAt := now\<rparr>)
    \<and> updated_fee resp = fee\<lparr>f_status := ''paid'', f_paidDate := Some now, f_updatedAt := now\<rparr>
    \<and> si_previousBalance (studentInfo resp) = balance_or_0 (s_balance student)
    \<and> si_newBalance (studentInfo resp) = js_sub (balance_or_0 (s_balance student)) a
    \<and> (\<exists>x. a = Fin x \<and> 0 < x
          \<and> (\<forall>b. balance_or_0 (s_balance student) = Fin b \<longrightarrow>
                js_sub (balance_or_0 (s_balance student)) a = round_to_double (b - x)
              \<and> (\<forall>r. round_to_double (b - x) = Fin r
                      \<longrightarrow> \<bar>r - (b - x)\<bar> \<le> max (\<bar>b - x\<bar> / 2 ^ 53) (1 / 2 ^ 1075))
              \<and> (\<forall>k q. b - x = of_int k * 2 powi q \<and> \<bar>k\<bar> < 2 ^ 53 \<and> - 1074 \<le> q
                         \<and> \<bar>b - x\<bar> < 2 ^ 1024
                      \<longrightarrow> round_to_double (b - x) = Fin (b - x))))"
proof -
  have v: "validate_body requestBody = Inr (a, m, t)"
    using body amount meth txn by (simp add: validate_body_ok js_gt_not_le)
  have s: "select_fee db feeId = Inr (fee, student)"
    using fee student by (simp add: select_fee_def)
  have c: "check_payable fee a = None"
    using fee(2) close by (auto simp: check_payable_def dest: js_le_not_gt)
  obtain rest where u: "update_fee_paid db feeId now =
     (db\<lparr>fees := map (\<lambda>f. if f_id f = feeId then mark_paid now f else f) (fees db)\<rparr>,
      mark_paid now fee # rest)"
    using update_fee_paid_found[OF fee(1)] by blast
  have sid: "f_studentId fee = Some (s_id student)"
    using student by (auto simp: find_Some_iff)
  obtain x where fin: "a = Fin x" "0 < x"
    using amount(2) close by (cases a; cases "f_amount fee") (auto simp: hundredth)
  have exact: "round_to_double (b - x) = Fin (b - x)"
    if "b - x = of_int k * 2 powi q \<and> \<bar>k\<bar> < 2 ^ 53 \<and> - 1074 \<le> q \<and> \<bar>b - x\<bar> < 2 ^ 1024"
    for b k q
  proof -
    from that have e: "b - x = of_int k * 2 powi q" and k: "\<bar>k\<bar> < 2 ^ 53" and q: "- 1074 \<le> q"
      and r: "\<bar>b - x\<bar> < 2 ^ 1024"
      by blast+
    from round_to_double_exact[OF k q r[unfolded e]] show ?thesis unfolding e .
  qed
  have bal: "\<forall>b. balance_or_0 (s_balance student) = Fin b \<longrightarrow>
                js_sub (balance_or_0 (s_balance student)) a = round_to_double (b - x)
              \<and> (\<forall>r. round_to_double (b - x) = Fin r
                      \<longrightarrow> \<bar>r - (b - x)\<bar> \<le> max (\<bar>b - x\<bar> / 2 ^ 53) (1 / 2 ^ 1075))
              \<and> (\<forall>k q. b - x = of_int k * 2 powi q \<and> \<bar>k\<bar> < 2 ^ 53 \<and> - 1074 \<le> q
                         \<and> \<bar>b - x\<bar> < 2 ^ 1024
                      \<longrightarrow> round_to_double (b - x) = Fin (b - x))"
  proof (intro allI impI conjI)
    fix b
    assume "balance_or_0 (s_balance student) = Fin b"
    then show "js_sub (balance_or_0 (s_balance student)) a = round_to_double (b - x)"
      using fin by simp
  next
    fix b r
    assume "round_to_double (b - x) = Fin r"
    then show "\<bar>r - (b - x)\<bar> \<le> max (\<bar>b - x\<bar> / 2 ^ 53) (1 / 2 ^ 1075)"
      by (rule round_to_double_error)
  next
    fix b k q
    assume "b - x = of_int k * 2 powi q \<and> \<bar>k\<bar> < 2 ^ 53 \<and> - 1074 \<le> q \<and> \<bar>b - x\<bar> < 2 ^ 1024"
    then show "round_to_double (b - x) = Fin (b - x)" by (rule exact)
  qed
  let ?nb = "js_sub (balance_or_0 (s_balance student)) a"
  let ?db' = "db\<lparr>fees := map (\<lambda>f. if f_id f = feeId then mark_paid now f else f) (fees db),
                 students := map (\<lambda>s. if s_id s = s_id student
                                       then s\<lparr>s_balance := Some ?nb, s_updatedAt := now\<rparr>
                                       else s) (students db)\<rparr>"
  let ?resp = "\<lparr>updated_fee = mark_paid now fee,
                paymentDetails =
                  \<lparr>pd_amount_paid = a,
                   pd_payment_method = String_trim env m,
                   pd_transaction_id = String_trim env t,
                   pd_processed_by = user_id,
                   pd_processed_at = now\<rparr>,
                studentInfo =
                  \<lparr>si_id = s_id student,
                   si_name = s_name student,
                   si_previousBalance = balance_or_0 (s_balance student),
                   si_newBalance = ?nb\<rparr>\<rparr>"
  have res: "PUT_payment env now user id_param requestBody db = (?db', Inr ?resp)"
    unfolding PUT_payment_def
    using auth ident v s c u
    by (simp add: apply_payment_def update_student_balance_def Let_def)
  have f': "find (\<lambda>f. f_id f = feeId) (fees ?db') = Some (mark_paid now fee)"
    using fee(1) by (simp add: find_fee_after)
  have s': "find (\<lambda>s. Some (s_id s) = f_studentId fee) (students ?db')
        = Some (student\<lparr>s_balance := Some ?nb, s_updatedAt := now\<rparr>)"
    using student by (simp add: find_student_after)
  have last: "\<exists>x. a = Fin x \<and> 0 < x
          \<and> (\<forall>b. balance_or_0 (s_balance student) = Fin b \<longrightarrow>
                js_sub (balance_or_0 (s_balance student)) a = round_to_double (b - x)
              \<and> (\<forall>r. round_to_double (b - x) = Fin r
                      \<longrightarrow> \<bar>r - (b - x)\<bar> \<le> max (\<bar>b - x\<bar> / 2 ^ 53) (1 / 2 ^ 1075))
              \<and> (\<forall>k q. b - x = of_int k * 2 powi q \<and> \<bar>k\<bar> < 2 ^ 53 \<and> - 1074 \<le> q
                         \<and> \<bar>b - x\<bar> < 2 ^ 1024
                      \<longrightarrow> round_to_double (b - x) = Fin (b - x)))"
    using fin bal by blast
  show ?thesis
    apply (rule exI[where x = "?db'"])
    apply (rule exI[where x = "?resp"])
    using res f' s' last by (simp add: mark_paid_def)
qed

lemma cents_literals:
  "js_literal (10001 / 10) = Fin (8796972631510221 / 8796093022208)"
  "js_literal (3002 / 10) = Fin (5281174250533683 / 17592186044416)"
  "js_literal (1501 / 5) = Fin (5281174250533683 / 17592186044416)"
  "round_to_double (12312771012486759 / 17592186044416) = Fin (1539096376560845 / 2199023255552)"
  using round_to_double_near[of "10001 / 10" 9 8796972631510221]
    round_to_double_near[of "1501 / 5" 8 5281174250533683]
    round_to_double_tie[of "12312771012486759 / 17592186044416" 9 6156385506243379]
  by (simp_all add: js_literal_def)

theorem payment_succeeds_witness:
  "(\<exists>db' resp.
      PUT_payment sample_builtins ex_now (Some ''admin'') ''1'' ex_request ex_store = (db', Inr resp)
    \<and> find (\<lambda>f. f_id f = 1) (fees db')
        = Some (ex_fee\<lparr>f_status := ''paid'', f_paidDate := Some ex_now, f_updatedAt := ex_now\<rparr>)
    \<and> find (\<lambda>s. s_id s = 7) (students db')
        = Some (ex_student\<lparr>s_balance := Some (Fin 700), s_updatedAt := ex_now\<rparr>)
    \<and> si_previousBalance (studentInfo resp) = Fin 1200
    \<and> si_newBalance (studentInfo resp) = Fin 700)
   \<and> (\<exists>db' resp.
      PUT_payment sample_builtins ex_now (Some ''admin'') ''3'' ex_cents_request ex_cents_store
        = (db', Inr resp)
    \<and> map s_balance (students ex_cents_store) = [Some (Fin (8796972631510221 / 8796093022208))]
    \<and> map s_balance (students db') = [Some (Fin (1539096376560845 / 2199023255552))]
    \<and> si_newBalance (studentInfo resp) = Fin (1539096376560845 / 2199023255552))"
proof -
  have kvs: "ex_request = Some (VObj [(''amount_paid'', VNum (Fin 500)),
      (''payment_method'', VStr ''cash''), (''transaction_id'', VStr ''TXN-001'')])"
    by (simp add: ex_request_def)
  have fee: "find (\<lambda>f. f_id f = 1) (fees ex_store) = Some ex_fee"
    by (simp add: ex_store_def ex_fee_def)
  have student: "find (\<lambda>s. Some (s_id s) = f_studentId ex_fee) (students ex_store) = Some ex_student"
    by (simp add: ex_store_def ex_fee_def ex_student_def)
  from payment_succeeds[where env = sample_builtins and now = ex_now and db = ex_store
      and user_id = "''admin''" and id_param = "''1''" and feeId = 1
      and a = "Fin 500" and m = "''cash''" and t = "''TXN-001''", OF refl _ _ kvs _ _ _ _ _ _ _ _ fee _ student]
  have 1: "\<exists>db' resp.
      PUT_payment sample_builtins ex_now (Some ''admin'') ''1'' ex_request ex_store = (db', Inr resp)
    \<and> find (\<lambda>f. f_id f = 1) (fees db')
        = Some (ex_fee\<lparr>f_status := ''paid'', f_paidDate := Some ex_now, f_updatedAt := ex_now\<rparr>)
    \<and> find (\<lambda>s. s_id s = 7) (students db')
        = Some (ex_student\<lparr>s_balance := Some (Fin 700), s_updatedAt := ex_now\<rparr>)
    \<and> si_previousBalance (studentInfo resp) = Fin 1200
    \<and> si_newBalance (studentInfo resp) = Fin 700"
    by (simp add: sample_eval double_eval ex_fee_def ex_student_def ex_store_def ex_request_def)
       blast
  have kvs3: "ex_cents_request = Some (VObj [(''amount_paid'', VNum (js_literal (3002 / 10))),
      (''payment_method'', VStr ''transfer''), (''transaction_id'', VStr ''TXN-006'')])"
    by (simp add: ex_cents_request_def)
  have fee3: "find (\<lambda>f. f_id f = 3) (fees ex_cents_store) = Some ex_cents_fee"
    by (simp add: ex_cents_store_def ex_cents_fee_def)
  have student3: "find (\<lambda>s. Some (s_id s) = f_studentId ex_cents_fee) (students ex_cents_store)
      = Some ex_cents_student"
    by (simp add: ex_cents_store_def ex_cents_fee_def ex_cents_student_def)
  from payment_succeeds[where env = sample_builtins and now = ex_now and db = ex_cents_store
      and user_id = "''admin''" and id_param = "''3''" and feeId = 3
      and a = "js_literal (3002 / 10)" and m = "''transfer''" and t = "''TXN-006''",
      OF refl _ _ kvs3 _ _ _ _ _ _ _ _ fee3 _ student3]
  obtain db' resp where
    r: "PUT_payment sample_builtins ex_now (Some ''admin'') ''3'' ex_cents_request ex_cents_store
        = (db', Inr resp)"
    and st: "find (\<lambda>s. Some (s_id s) = f_studentId ex_cents_fee) (students db')
        = Some (ex_cents_student
                 \<lparr>s_balance := Some (js_sub (balance_or_0 (s_balance ex_cents_student))
                                       (js_literal (3002 / 10))),
                  s_updatedAt := ex_now\<rparr>)"
    and nb: "si_newBalance (studentInfo resp)
        = js_sub (balance_or_0 (s_balance ex_cents_student)) (js_literal (3002 / 10))"
    by (simp add: sample_eval double_eval cents_literals ex_cents_fee_def) blast
  have len: "length (students db') = 1"
    using r by (auto simp: PUT_payment_def validate_body_def select_fee_def check_payable_def
        apply_payment_def update_fee_paid_def update_student_balance_def Let_def
        ex_cents_request_def ex_cents_store_def ex_cents_fee_def ex_cents_student_def
        sample_eval double_eval cents_literals split: if_splits)
  have v: "js_sub (balance_or_0 (s_balance ex_cents_student)) (js_literal (3002 / 10))
      = Fin (1539096376560845 / 2199023255552)"
    by (simp add: ex_cents_student_def cents_literals)
  from st len have "map s_balance (students db') = [Some (Fin (1539096376560845 / 2199023255552))]"
    unfolding v by (cases "students db'") (auto simp: ex_cents_fee_def split: if_splits)
  with r nb v have 2: "\<exists>db' resp.
      PUT_payment sample_builtins ex_now (Some ''admin'') ''3'' ex_cents_request ex_cents_store
        = (db', Inr resp)
    \<and> map s_balance (students ex_cents_store) = [Some (Fin (8796972631510221 / 8796093022208))]
    \<and> map s_balance (students db') = [Some (Fin (1539096376560845 / 2199023255552))]
    \<and> si_newBalance (studentInfo resp) = Fin (1539096376560845 / 2199023255552)"
    by (simp add: ex_cents_store_def ex_cents_student_def cents_literals)
  from 1 2 show ?thesis by blast
qed

lemma update_fee_paid_none:
  assumes "update_fee_paid db feeId now = (db1, [])"
  shows "db1 = db"
proof -
  from assms have e: "filter (\<lambda>f. f_id f = feeId) (fees db) = []"
    and d: "db1 = db\<lparr>fees := map (\<lambda>f. if f_id f = feeId then mark_paid now f else f) (fees db)\<rparr>"
    by (auto simp: update_fee_paid_def)
  from filter_empty_map_id[OF e, of "mark_paid now"] d show ?thesis by simp
qed

lemma apply_payment_error_keeps_store:
  "apply_payment env now uid feeId fee student a m t db = (db', Inl e) \<Longrightarrow> db' = db"
  by (auto simp: apply_payment_def Let_def split: prod.splits list.splits
        dest: update_fee_paid_none)

lemma PUT_payment_error_keeps_store:
  "PUT_payment env now user id_param requestBody db = (db', Inl e) \<Longrightarrow> db' = db"
  unfolding PUT_payment_def
  by (auto split: option.splits sum.splits prod.splits if_splits
        dest: apply_payment_error_keeps_store)

lemma PUT_payment_success_cases:
  assumes "PUT_payment env now user id_param requestBody db = (db', Inr resp)"
  shows "\<exists>uid feeId a m t fee student.
           user = Some uid \<and> id_param \<noteq> [] \<and> parseInt env (VStr id_param) = Some feeId
         \<and> validate_body requestBody = Inr (a, m, t)
         \<and> select_fee db feeId = Inr (fee, student)
         \<and> check_payable fee a = None
         \<and> apply_payment env now uid feeId fee student a m t db = (db', Inr resp)"
  using assms unfolding PUT_payment_def
  by (auto split: option.splits sum.splits prod.splits if_splits)

lemma validate_body_Inr_iff:
  "validate_body requestBody = Inr (a, m, t) \<longleftrightarrow>
     (\<exists>body. requestBody = Some body
        \<and> js_in ''userId'' body = Some False \<and> js_in ''user_id'' body = Some False
        \<and> prop_of body ''amount_paid'' = VNum a \<and> \<not> js_le a (Fin 0)
        \<and> prop_of body ''payment_method'' = VStr m \<and> m \<noteq> []
        \<and> prop_of body ''transaction_id'' = VStr t \<and> t \<noteq> [])"
  unfolding validate_body_def
  apply (cases requestBody)
   apply simp
  subgoal for body
    by (cases body) (auto simp: Let_def split: option.splits bool.splits jsval.splits)
  done

lemma select_fee_Inr_iff:
  "select_fee db feeId = Inr (fee, student) \<longleftrightarrow>
     find (\<lambda>f. f_id f = feeId) (fees db) = Some fee
   \<and> find (\<lambda>s. Some (s_id s) = f_studentId fee) (students db) = Some student"
  by (auto simp: select_fee_def split: option.splits)

lemmas ex_data =
  ex_fee_def ex_student_def ex_store_def ex_request_def ex_paid_store_def ex_replay_def

lemma PUT_payment_ok:
  assumes "user = Some user_id" "id_param \<noteq> []" "parseInt env (VStr id_param) = Some feeId"
    and "validate_body requestBody = Inr (a, m, t)"
    and "select_fee db feeId = Inr (fee, student)"
    and "check_payable fee a = None"
  shows "PUT_payment env now user id_param requestBody db =
    (db\<lparr>fees := map (\<lambda>f. if f_id f = feeId then mark_paid now f else f) (fees db),
        students := map (\<lambda>s. if s_id s = s_id student
                              then s\<lparr>s_balance := Some (js_sub (balance_or_0 (s_balance student)) a),
                                     s_updatedAt := now\<rparr>
                              else s) (students db)\<rparr>,
     Inr \<lparr>updated_fee = mark_paid now fee,
          paymentDetails =
            \<lparr>pd_amount_paid = a,
             pd_payment_method = String_trim env m,
             pd_transaction_id = String_trim env t,
             pd_processed_by = user_id,
             pd_processed_at = now\<rparr>,
          studentInfo =
            \<lparr>si_id = s_id student,
             si_name = s_name student,
             si_previousBalance = balance_or_0 (s_balance student),
             si_newBalance = js_sub (balance_or_0 (s_balance student)) a\<rparr>\<rparr>)"
proof -
  from assms(5) have "find (\<lambda>f. f_id f = feeId) (fees db) = Some fee"
    by (simp add: select_fee_Inr_iff)
  from update_fee_paid_found[OF this, of now] obtain rest where
    "update_fee_paid db feeId now =
     (db\<lparr>fees := map (\<lambda>f. if f_id f = feeId then mark_paid now f else f) (fees db)\<rparr>,
      mark_paid now fee # rest)"
    by blast
  with assms show ?thesis
    unfolding PUT_payment_def
    by (simp add: apply_payment_def update_student_balance_def Let_def)
qed

section \<open>A fee that is already paid\<close>

text \<open>
  C2, as amended. For a fee whose status is already paid the handler never succeeds and
  never changes the store, whatever the arguments. When the request is well formed (an
  authenticated user and a body that passes the validation of lines 167-206) and the
  fee's student exists, the error is \<open>FEE_ALREADY_PAID\<close>, "Fee has already been paid":
  the Conflict of the specification. The witness replays the payment of the scenario:
  the second call is rejected and the balance stays at 700.
\<close>

theorem paid_fee_rejected:
  assumes ident: "id_param \<noteq> []" "parseInt env (VStr id_param) = Some feeId"
    and fee: "find (\<lambda>f. f_id f = feeId) (fees db) = Some fee" "f_status fee = ''paid''"
  shows "(\<exists>e. PUT_payment env now user id_param requestBody db = (db, Inl e))
    \<and> (\<forall>uid a m t student.
          user = Some uid \<and> validate_body requestBody = Inr (a, m, t)
          \<and> find (\<lambda>s. Some (s_id s) = f_studentId fee) (students db) = Some student
          \<longrightarrow> PUT_payment env now user id_param requestBody db = (db, Inl FEE_ALREADY_PAID))"
proof (intro conjI allI impI)
  obtain db' r where res: "PUT_payment env now user id_param requestBody db = (db', r)"
    by (cases "PUT_payment env now user id_param requestBody db")
  show "\<exists>e. PUT_payment env now user id_param requestBody db = (db, Inl e)"
  proof (cases r)
    case (Inl e)
    with res PUT_payment_error_keeps_store[of env now user id_param requestBody db db' e]
    show ?thesis by simp
  next
    case (Inr resp)
    with res PUT_payment_success_cases[of env now user id_param requestBody db db' resp]
    obtain a fee' student where "select_fee db feeId = Inr (fee', student)"
      and c: "check_payable fee' a = None"
      using ident by auto
    with fee have "fee' = fee" by (simp add: select_fee_Inr_iff)
    with c fee(2) show ?thesis by (simp add: check_payable_def)
  qed
next
  fix uid a m t student
  assume "user = Some uid \<and> validate_body requestBody = Inr (a, m, t)
          \<and> find (\<lambda>s. Some (s_id s) = f_studentId fee) (students db) = Some student"
  with ident fee show "PUT_payment env now user id_param requestBody db = (db, Inl FEE_ALREADY_PAID)"
    unfolding PUT_payment_def by (simp add: select_fee_def check_payable_def)
qed

theorem paid_fee_rejected_witness:
  "PUT_payment sample_builtins ex_now (Some ''admin'') ''1'' ex_request ex_store
     = (ex_paid_store, snd (PUT_payment sample_builtins ex_now (Some ''admin'') ''1'' ex_request ex_store))
   \<and> PUT_payment sample_builtins ex_later (Some ''admin'') ''1'' ex_replay ex_paid_store
     = (ex_paid_store, Inl FEE_ALREADY_PAID)
   \<and> map s_balance (students ex_paid_store) = [Some (Fin 700)]"
proof -
  have i: "''1'' \<noteq> []" "parseInt sample_builtins (VStr ''1'') = Some 1"
    by (simp_all add: sample_eval)
  have f: "find (\<lambda>f. f_id f = 1) (fees ex_paid_store)
             = Some (ex_fee\<lparr>f_status := ''paid'', f_paidDate := Some ex_now, f_updatedAt := ex_now\<rparr>)"
    "f_status (ex_fee\<lparr>f_status := ''paid'', f_paidDate := Some ex_now, f_updatedAt := ex_now\<rparr>) = ''paid''"
    by (simp_all add: ex_data)
  have v: "validate_body ex_replay = Inr (Fin 500, ''cash'', ''TXN-002'')"
    by (simp add: validate_body_def ex_data)
  have s: "find (\<lambda>s. Some (s_id s)
                  = f_studentId (ex_fee\<lparr>f_status := ''paid'', f_paidDate := Some ex_now, f_updatedAt := ex_now\<rparr>))
             (students ex_paid_store)
           = Some (ex_student\<lparr>s_balance := Some (Fin 700), s_updatedAt := ex_now\<rparr>)"
    by (simp add: ex_data)
  have first: "fst (PUT_payment sample_builtins ex_now (Some ''admin'') ''1'' ex_request ex_store)
                 = ex_paid_store"
    by (simp add: PUT_payment_def validate_body_def select_fee_def check_payable_def
          apply_payment_def update_fee_paid_def update_student_balance_def mark_paid_def Let_def
          sample_eval double_eval ex_data)
  from paid_fee_rejected[OF i f, of ex_later "Some ''admin''" ex_replay] v s
  have "PUT_payment sample_builtins ex_later (Some ''admin'') ''1'' ex_replay ex_paid_store
     = (ex_paid_store, Inl FEE_ALREADY_PAID)"
    by blast
  with first show ?thesis
    by (simp add: prod_eq_iff ex_paid_store_def ex_student_def)
qed

text \<open>
  With any arguments the claim fails: an argument that is not valid is reported before
  the status of the fee is looked at.
\<close>

theorem paid_fee_invalid_amount_counterexample:
  "f_status (hd (fees ex_paid_store)) = ''paid''
   \<and> PUT_payment sample_builtins ex_later (Some ''admin'') ''1''
        (Some (VObj [(''amount_paid'', VNum (Fin 0)), (''payment_method'', VStr ''cash''),
                     (''transaction_id'', VStr ''TXN-002'')])) ex_paid_store
       = (ex_paid_store, Inl INVALID_AMOUNT)"
  by (simp add: PUT_payment_def validate_body_def sample_eval ex_data)

section \<open>The tolerance on the amount\<close>

text \<open>
  C3. For an existing fee that is pending or overdue, whose student exists, and a request
  that is otherwise valid, the handler fails with \<open>AMOUNT_MISMATCH\<close>, reporting the
  amount paid and the amount of the fee, if and only if the absolute difference of the
  two exceeds 0.01; the store is then unchanged. Otherwise, and so whenever the
  difference is at most 0.01, the payment succeeds: the fee is marked paid and the
  balance is decremented. The difference and the 0.01 are the doubles of the source,
  \<open>Math.abs(amount_paid - fee.amount)\<close> and the literal \<open>0.01\<close>. In exact terms: the
  payment succeeds whenever the two amounts differ by at most one hundredth, and it
  fails only if they differ by more.
\<close>

theorem amount_tolerance:
  assumes auth: "user = Some user_id"
    and ident: "id_param \<noteq> []" "parseInt env (VStr id_param) = Some feeId"
    and body: "requestBody = Some (VObj kvs)"
      "map_of kvs ''userId'' = None" "map_of kvs ''user_id'' = None"
    and amount: "map_of kvs ''amount_paid'' = Some (VNum a)" "js_gt a (Fin 0)"
    and meth: "map_of kvs ''payment_method'' = Some (VStr m)" "m \<noteq> []"
    and txn: "map_of kvs ''transaction_id'' = Some (VStr t)" "t \<noteq> []"
    and fee: "find (\<lambda>f. f_id f = feeId) (fees db) = Some fee"
      "f_status fee = ''pending'' \<or> f_status fee = ''overdue''"
    and student: "find (\<lambda>s. Some (s_id s) = f_studentId fee) (students db) = Some student"
  shows "((\<exists>p q. snd (PUT_payment env now user id_param requestBody db) = Inl (AMOUNT_MISMATCH p q))
            \<longleftrightarrow> js_gt (Math_abs (js_sub a (f_amount fee))) (js_literal (1 / 100)))
    \<and> (js_gt (Math_abs (js_sub a (f_amount fee))) (js_literal (1 / 100))
          \<longrightarrow> PUT_payment env now user id_param requestBody db
                = (db, Inl (AMOUNT_MISMATCH a (f_amount fee))))
    \<and> (\<not> js_gt (Math_abs (js_sub a (f_amount fee))) (js_literal (1 / 100))
          \<longrightarrow> PUT_payment env now user id_param requestBody db
                = (db\<lparr>fees := map (\<lambda>f. if f_id f = feeId
                                         then f\<lparr>f_status := ''paid'', f_paidDate := Some now,
                                                f_updatedAt := now\<rparr>
                                         else f) (fees db),
                      students := map (\<lambda>s. if s_id s = s_id student
                                            then s\<lparr>s_balance :=
                                                     Some (js_sub (balance_or_0 (s_balance student)) a),
                                                   s_updatedAt := now\<rparr>
                                            else s) (students db)\<rparr>,
                   Inr \<lparr>updated_fee = fee\<lparr>f_status := ''paid'', f_paidDate := Some now,
                                           f_updatedAt := now\<rparr>,
                        paymentDetails =
                          \<lparr>pd_amount_paid = a,
                           pd_payment_method = String_trim env m,
                           pd_transaction_id = String_trim env t,
                           pd_processed_by = user_id,
                           pd_processed_at = now\<rparr>,
                        studentInfo =
                          \<lparr>si_id = s_id student,
                           si_name = s_name student,
                           si_previousBalance = balance_or_0 (s_balance student),
                           si_newBalance = js_sub (balance_or_0 (s_balance student)) a\<rparr>\<rparr>))
    \<and> (js_le (Math_abs (js_sub a (f_amount fee))) (js_literal (1 / 100))
          \<longrightarrow> \<not> js_gt (Math_abs (js_sub a (f_amount fee))) (js_literal (1 / 100)))
    \<and> (\<forall>x y. a = Fin x \<and> f_amount fee = Fin y \<longrightarrow>
          js_gt (Math_abs (js_sub a (f_amount fee))) (js_literal (1 / 100))
            = js_gt (round_to_double \<bar>x - y\<bar>) (Fin (5764607523034235 / 576460752303423488))
        \<and> (\<bar>x - y\<bar> \<le> 1 / 100
             \<longrightarrow> \<not> js_gt (Math_abs (js_sub a (f_amount fee))) (js_literal (1 / 100)))
        \<and> (js_gt (Math_abs (js_sub a (f_amount fee))) (js_literal (1 / 100))
             \<longrightarrow> 1 / 100 < \<bar>x - y\<bar>))"
proof -
  let ?far = "js_gt (Math_abs (js_sub a (f_amount fee))) (js_literal (1 / 100))"
  have v: "validate_body requestBody = Inr (a, m, t)"
    using body amount meth txn by (simp add: validate_body_ok js_gt_not_le)
  have s: "select_fee db feeId = Inr (fee, student)"
    using fee student by (simp add: select_fee_def)
  have far: "PUT_payment env now user id_param requestBody db
                = (db, Inl (AMOUNT_MISMATCH a (f_amount fee)))" if ?far
    unfolding PUT_payment_def using auth ident v s fee(2) that
    by (auto simp: check_payable_def)
  have near: "PUT_payment env now user id_param requestBody db
                = (db\<lparr>fees := map (\<lambda>f. if f_id f = feeId
                                         then f\<lparr>f_status := ''paid'', f_paidDate := Some now,
                                                f_updatedAt := now\<rparr>
                                         else f) (fees db),
                      students := map (\<lambda>s. if s_id s = s_id student
                                            then s\<lparr>s_balance :=
                                                     Some (js_sub (balance_or_0 (s_balance student)) a),
                                                   s_updatedAt := now\<rparr>
                                            else s) (students db)\<rparr>,
                   Inr \<lparr>updated_fee = fee\<lparr>f_status := ''paid'', f_paidDate := Some now,
                                           f_updatedAt := now\<rparr>,
                        paymentDetails =
                          \<lparr>pd_amount_paid = a,
                           pd_payment_method = String_trim env m,
                           pd_transaction_id = String_trim env t,
                           pd_processed_by = user_id,
                           pd_processed_at = now\<rparr>,
                        studentInfo =
                          \<lparr>si_id = s_id student,
                           si_name = s_name student,
                           si_previousBalance = balance_or_0 (s_balance student),
                           si_newBalance = js_sub (balance_or_0 (s_balance student)) a\<rparr>\<rparr>)"
    if "\<not> ?far"
  proof -
    from fee(2) that have "check_payable fee a = None"
      by (auto simp: check_payable_def)
    from PUT_payment_ok[OF auth ident v s this, of now] show ?thesis
      by (simp add: mark_paid_def)
  qed
  have iff: "(\<exists>p q. snd (PUT_payment env now user id_param requestBody db) = Inl (AMOUNT_MISMATCH p q))
            \<longleftrightarrow> ?far"
  proof (cases ?far)
    case True
    with far show ?thesis by simp
  next
    case False
    with near show ?thesis by simp
  qed
  have le: "\<not> ?far" if "js_le (Math_abs (js_sub a (f_amount fee))) (js_literal (1 / 100))"
    using js_le_not_gt[OF that] .
  have fin: "?far = js_gt (round_to_double \<bar>x - y\<bar>) (Fin (5764607523034235 / 576460752303423488))
        \<and> (\<bar>x - y\<bar> \<le> 1 / 100 \<longrightarrow> \<not> ?far) \<and> (?far \<longrightarrow> 1 / 100 < \<bar>x - y\<bar>)"
    if "a = Fin x \<and> f_amount fee = Fin y" for x y
  proof -
    from that have e: "a = Fin x" "f_amount fee = Fin y" by blast+
    have 1: "?far = js_gt (round_to_double \<bar>x - y\<bar>) (Fin (5764607523034235 / 576460752303423488))"
      unfolding e by (simp add: round_to_double_abs hundredth)
    have 2: "\<not> ?far" if "\<bar>x - y\<bar> \<le> 1 / 100"
      unfolding e using that by (rule within_hundredth)
    from 2 have 3: "1 / 100 < \<bar>x - y\<bar>" if ?far
      using that by (cases "\<bar>x - y\<bar> \<le> 1 / 100") auto
    from 1 2 3 show ?thesis by blast
  qed
  from iff far near le fin show ?thesis by blast
qed

lemma cents_difference:
  "js_literal (2 / 100) = Fin (5764607523034235 / 288230376151711744)"
  "js_literal (1 / 50) = Fin (5764607523034235 / 288230376151711744)"
  "round_to_double (5764607523034235 / 576460752303423488)
     = Fin (5764607523034235 / 576460752303423488)"
  using round_to_double_near[of "1 / 50" "- 6" 5764607523034235]
    round_to_double_near[of "5764607523034235 / 576460752303423488" "- 7" 5764607523034235]
  by (simp_all add: js_literal_def)

theorem amount_tolerance_witness:
  "PUT_payment sample_builtins ex_now (Some ''admin'') ''2'' ex_request250 ex_store300
     = (ex_store300, Inl (AMOUNT_MISMATCH (Fin 250) (Fin 300)))
   \<and> (\<exists>db' resp.
        PUT_payment sample_builtins ex_now (Some ''admin'') ''4'' ex_small_request ex_cents_store
          = (db', Inr resp)
      \<and> map f_status (fees db') = [''pending'', ''paid''])"
proof -
  have i: "''2'' \<noteq> []" "parseInt sample_builtins (VStr ''2'') = Some 2"
    by (simp_all add: sample_eval)
  have b: "ex_request250 = Some (VObj [(''amount_paid'', VNum (Fin 250)),
      (''payment_method'', VStr ''card''), (''transaction_id'', VStr ''TXN-003'')])"
    by (simp add: ex_request250_def)
  have f: "find (\<lambda>f. f_id f = 2) (fees ex_store300) = Some ex_fee300"
    by (simp add: ex_store300_def ex_fee300_def ex_data)
  have st: "f_status ex_fee300 = ''pending'' \<or> f_status ex_fee300 = ''overdue''"
    by (simp add: ex_fee300_def)
  have s: "find (\<lambda>s. Some (s_id s) = f_studentId ex_fee300) (students ex_store300) = Some ex_student"
    by (simp add: ex_store300_def ex_fee300_def ex_data)
  from amount_tolerance[where env = sample_builtins and now = ex_now and db = ex_store300
      and a = "Fin 250" and m = "''card''" and t = "''TXN-003''",
      OF refl i b _ _ _ _ _ _ _ _ f st s]
  have 1: "PUT_payment sample_builtins ex_now (Some ''admin'') ''2'' ex_request250 ex_store300
     = (ex_store300, Inl (AMOUNT_MISMATCH (Fin 250) (Fin 300)))"
    by (simp add: ex_fee300_def double_eval)
  have i4: "''4'' \<noteq> []" "parseInt sample_builtins (VStr ''4'') = Some 4"
    by (simp_all add: sample_eval)
  have b4: "ex_small_request = Some (VObj [(''amount_paid'', VNum (Fin (5764607523034235 / 288230376151711744))),
      (''payment_method'', VStr ''cash''), (''transaction_id'', VStr ''TXN-007'')])"
    by (simp add: ex_small_request_def cents_difference)
  have f4: "find (\<lambda>f. f_id f = 4) (fees ex_cents_store) = Some ex_small_fee"
    by (simp add: ex_cents_store_def ex_cents_fee_def ex_small_fee_def)
  have st4: "f_status ex_small_fee = ''pending'' \<or> f_status ex_small_fee = ''overdue''"
    by (simp add: ex_small_fee_def)
  have s4: "find (\<lambda>s. Some (s_id s) = f_studentId ex_small_fee) (students ex_cents_store)
      = Some ex_cents_student"
    by (simp add: ex_cents_store_def ex_small_fee_def ex_cents_student_def)
  have near: "\<not> js_gt (Math_abs (js_sub (Fin (5764607523034235 / 288230376151711744))
                                  (f_amount ex_small_fee))) (js_literal (1 / 100))"
    by (simp add: ex_small_fee_def hundredth cents_difference)
  from amount_tolerance[where env = sample_builtins and now = ex_now and db = ex_cents_store
      and a = "Fin (5764607523034235 / 288230376151711744)" and m = "''cash''" and t = "''TXN-007''",
      OF refl i4 b4 _ _ _ _ _ _ _ _ f4 st4 s4, THEN conjunct2, THEN conjunct2, THEN conjunct1]
    near
  have 2: "\<exists>db' resp.
        PUT_payment sample_builtins ex_now (Some ''admin'') ''4'' ex_small_request ex_cents_store
          = (db', Inr resp)
      \<and> map f_status (fees db') = [''pending'', ''paid'']"
    by (simp add: ex_cents_store_def ex_cents_fee_def ex_small_fee_def)
  from 1 2 show ?thesis by blast
qed


lemma validate_body_errors:
  "validate_body requestBody = Inl e \<Longrightarrow>
     e \<in> {INTERNAL_ERROR, USER_ID_NOT_ALLOWED, MISSING_AMOUNT_PAID, MISSING_PAYMENT_METHOD,
          MISSING_TRANSACTION_ID, INVALID_AMOUNT}"
  unfolding validate_body_def
  by (auto simp: Let_def split: option.splits jsval.splits bool.splits if_splits prod.splits)



section \<open>The order of the checks\<close>




lemma not_js_le_zero:
  "\<not> js_le a (Fin 0) \<longleftrightarrow> a = NaN \<or> a = PInf \<or> (\<exists>x. a = Fin x \<and> 0 < x)"
  by (cases a) auto

lemma validate_body_rejects_amount:
  assumes "\<forall>a. prop_of (VObj kvs) ''amount_paid'' = VNum a \<longrightarrow> js_le a (Fin 0)"
  shows "\<exists>e. validate_body (Some (VObj kvs)) = Inl e
    \<and> e \<in> {USER_ID_NOT_ALLOWED, MISSING_AMOUNT_PAID, MISSING_PAYMENT_METHOD,
            MISSING_TRANSACTION_ID, INVALID_AMOUNT}"
proof (cases "validate_body (Some (VObj kvs))")
  case (Inl e)
  then have "e \<noteq> INTERNAL_ERROR"
    by (auto simp: validate_body_def Let_def split: option.splits jsval.splits bool.splits if_splits)
  with Inl validate_body_errors[OF Inl] show ?thesis by auto
next
  case (Inr r)
  obtain a m t where "r = (a, m, t)" by (cases r)
  with Inr assms show ?thesis
    by (auto simp: validate_body_Inr_iff simp del: prop_of.simps)
qed

lemma validate_body_amount_field:
  assumes "\<forall>a. prop_of (VObj kvs) ''amount_paid'' = VNum a \<longrightarrow> js_le a (Fin 0)"
    and "map_of kvs ''userId'' = None" "map_of kvs ''user_id'' = None"
    and "map_of kvs ''payment_method'' = Some (VStr m)" "m \<noteq> []"
    and "map_of kvs ''transaction_id'' = Some (VStr t)" "t \<noteq> []"
  shows "validate_body (Some (VObj kvs)) = Inl MISSING_AMOUNT_PAID
       \<or> validate_body (Some (VObj kvs)) = Inl INVALID_AMOUNT"
proof (cases "map_of kvs ''amount_paid''")
  case None
  with assms show ?thesis by (simp add: validate_body_def)
next
  case (Some v)
  with assms show ?thesis by (cases v) (simp_all add: validate_body_def)
qed

lemma infinity_mismatch:
  assumes "f_status fee = ''pending'' \<or> f_status fee = ''overdue''" "f_amount fee = Fin y"
  shows "check_payable fee PInf = Some (AMOUNT_MISMATCH PInf (Fin y))"
  using assms by (auto simp: check_payable_def hundredth)

section \<open>The validation of the amount\<close>

text \<open>
  C5, as amended. When \<open>amount_paid\<close> is absent, \<open>null\<close>, not a number, or a number
  that is at most 0, the handler fails with one of its input errors and, when the other
  fields are valid, with an error of the amount (\<open>MISSING_AMOUNT_PAID\<close> or
  \<open>INVALID_AMOUNT\<close>). \<open>Infinity\<close> is not such a number: it passes the validation,
  and against a payable fee of a finite amount it fails with \<open>AMOUNT_MISMATCH\<close>. No
  failure changes the store. On a store whose fees have finite amounts, a request
  succeeds only with an \<open>amount_paid\<close> that is a finite number above zero (the body is
  JSON, which has no NaN).
\<close>

theorem nonpositive_amount_rejected:
  shows "(\<forall>kvs. requestBody = Some (VObj kvs)
            \<and> (\<forall>a. prop_of (VObj kvs) ''amount_paid'' = VNum a \<longrightarrow> js_le a (Fin 0))
          \<longrightarrow> (\<exists>e. PUT_payment env now user id_param requestBody db = (db, Inl e)
                \<and> e \<in> {AUTH_REQUIRED, INVALID_ID, USER_ID_NOT_ALLOWED, MISSING_AMOUNT_PAID,
                        MISSING_PAYMENT_METHOD, MISSING_TRANSACTION_ID, INVALID_AMOUNT}
                \<and> (user \<noteq> None \<and> id_param \<noteq> [] \<and> parseInt env (VStr id_param) \<noteq> None
                    \<and> map_of kvs ''userId'' = None \<and> map_of kvs ''user_id'' = None
                    \<and> (\<exists>m. map_of kvs ''payment_method'' = Some (VStr m) \<and> m \<noteq> [])
                    \<and> (\<exists>t. map_of kvs ''transaction_id'' = Some (VStr t) \<and> t \<noteq> [])
                   \<longrightarrow> e = MISSING_AMOUNT_PAID \<or> e = INVALID_AMOUNT)))
    \<and> (\<forall>kvs uid feeId m t.
          user = Some uid \<and> id_param \<noteq> [] \<and> parseInt env (VStr id_param) = Some feeId
          \<and> requestBody = Some (VObj kvs)
          \<and> map_of kvs ''userId'' = None \<and> map_of kvs ''user_id'' = None
          \<and> map_of kvs ''amount_paid'' = Some (VNum PInf)
          \<and> map_of kvs ''payment_method'' = Some (VStr m) \<and> m \<noteq> []
          \<and> map_of kvs ''transaction_id'' = Some (VStr t) \<and> t \<noteq> []
          \<longrightarrow> validate_body requestBody = Inr (PInf, m, t)
            \<and> (\<forall>fee student y.
                  find (\<lambda>f. f_id f = feeId) (fees db) = Some fee
                  \<and> (f_status fee = ''pending'' \<or> f_status fee = ''overdue'')
                  \<and> find (\<lambda>s. Some (s_id s) = f_studentId fee) (students db) = Some student
                  \<and> f_amount fee = Fin y
                  \<longrightarrow> PUT_payment env now user id_param requestBody db
                        = (db, Inl (AMOUNT_MISMATCH PInf (Fin y)))))
    \<and> (\<forall>db' resp. PUT_payment env now user id_param requestBody db = (db', Inr resp)
          \<longrightarrow> (\<exists>body a. requestBody = Some body \<and> prop_of body ''amount_paid'' = VNum a
                  \<and> \<not> js_le a (Fin 0)
                  \<and> ((\<forall>f \<in> set (fees db). \<exists>y. f_amount f = Fin y) \<and> a \<noteq> NaN
                       \<longrightarrow> (\<exists>x. a = Fin x \<and> 0 < x))))
    \<and> (\<forall>db' e. PUT_payment env now user id_param requestBody db = (db', Inl e) \<longrightarrow> db' = db)"
proof (intro conjI allI impI)
  fix kvs
  assume h: "requestBody = Some (VObj kvs)
            \<and> (\<forall>a. prop_of (VObj kvs) ''amount_paid'' = VNum a \<longrightarrow> js_le a (Fin 0))"
  then have rb: "requestBody = Some (VObj kvs)"
    and bad: "\<forall>a. prop_of (VObj kvs) ''amount_paid'' = VNum a \<longrightarrow> js_le a (Fin 0)"
    by blast+
  from validate_body_rejects_amount[OF bad] obtain e0 where
    e0: "validate_body (Some (VObj kvs)) = Inl e0"
      "e0 \<in> {USER_ID_NOT_ALLOWED, MISSING_AMOUNT_PAID, MISSING_PAYMENT_METHOD,
            MISSING_TRANSACTION_ID, INVALID_AMOUNT}"
    by blast
  let ?e = "case user of None \<Rightarrow> AUTH_REQUIRED
            | Some u \<Rightarrow> (if id_param = [] \<or> parseInt env (VStr id_param) = None
                         then INVALID_ID else e0)"
  have res: "PUT_payment env now user id_param requestBody db = (db, Inl ?e)"
    unfolding PUT_payment_def using rb e0(1)
    by (auto split: option.splits)
  have mem: "?e \<in> {AUTH_REQUIRED, INVALID_ID, USER_ID_NOT_ALLOWED, MISSING_AMOUNT_PAID,
                        MISSING_PAYMENT_METHOD, MISSING_TRANSACTION_ID, INVALID_AMOUNT}"
    using e0(2) by (auto split: option.splits)
  have field: "?e = MISSING_AMOUNT_PAID \<or> ?e = INVALID_AMOUNT"
    if "user \<noteq> None \<and> id_param \<noteq> [] \<and> parseInt env (VStr id_param) \<noteq> None
                    \<and> map_of kvs ''userId'' = None \<and> map_of kvs ''user_id'' = None
                    \<and> (\<exists>m. map_of kvs ''payment_method'' = Some (VStr m) \<and> m \<noteq> [])
                    \<and> (\<exists>t. map_of kvs ''transaction_id'' = Some (VStr t) \<and> t \<noteq> [])"
  proof -
    from that obtain m t where
      "map_of kvs ''userId'' = None" "map_of kvs ''user_id'' = None"
      "map_of kvs ''payment_method'' = Some (VStr m)" "m \<noteq> []"
      "map_of kvs ''transaction_id'' = Some (VStr t)" "t \<noteq> []"
      by blast
    from validate_body_amount_field[OF bad this] e0(1)
    have "e0 = MISSING_AMOUNT_PAID \<or> e0 = INVALID_AMOUNT" by auto
    with that show ?thesis by (auto split: option.splits)
  qed
  show "\<exists>e. PUT_payment env now user id_param requestBody db = (db, Inl e)
                \<and> e \<in> {AUTH_REQUIRED, INVALID_ID, USER_ID_NOT_ALLOWED, MISSING_AMOUNT_PAID,
                        MISSING_PAYMENT_METHOD, MISSING_TRANSACTION_ID, INVALID_AMOUNT}
                \<and> (user \<noteq> None \<and> id_param \<noteq> [] \<and> parseInt env (VStr id_param) \<noteq> None
                    \<and> map_of kvs ''userId'' = None \<and> map_of kvs ''user_id'' = None
                    \<and> (\<exists>m. map_of kvs ''payment_method'' = Some (VStr m) \<and> m \<noteq> [])
                    \<and> (\<exists>t. map_of kvs ''transaction_id'' = Some (VStr t) \<and> t \<noteq> [])
                   \<longrightarrow> e = MISSING_AMOUNT_PAID \<or> e = INVALID_AMOUNT)"
    using res mem field by (intro exI[where x = "?e"] conjI impI)
next
  fix kvs uid feeId m t
  assume "user = Some uid \<and> id_param \<noteq> [] \<and> parseInt env (VStr id_param) = Some feeId
          \<and> requestBody = Some (VObj kvs)
          \<and> map_of kvs ''userId'' = None \<and> map_of kvs ''user_id'' = None
          \<and> map_of kvs ''amount_paid'' = Some (VNum PInf)
          \<and> map_of kvs ''payment_method'' = Some (VStr m) \<and> m \<noteq> []
          \<and> map_of kvs ''transaction_id'' = Some (VStr t) \<and> t \<noteq> []"
  then show "validate_body requestBody = Inr (PInf, m, t)"
    by (simp add: validate_body_ok)
next
  fix kvs uid feeId m t fee student y
  assume h: "user = Some uid \<and> id_param \<noteq> [] \<and> parseInt env (VStr id_param) = Some feeId
          \<and> requestBody = Some (VObj kvs)
          \<and> map_of kvs ''userId'' = None \<and> map_of kvs ''user_id'' = None
          \<and> map_of kvs ''amount_paid'' = Some (VNum PInf)
          \<and> map_of kvs ''payment_method'' = Some (VStr m) \<and> m \<noteq> []
          \<and> map_of kvs ''transaction_id'' = Some (VStr t) \<and> t \<noteq> []"
    and f: "find (\<lambda>f. f_id f = feeId) (fees db) = Some fee
                  \<and> (f_status fee = ''pending'' \<or> f_status fee = ''overdue'')
                  \<and> find (\<lambda>s. Some (s_id s) = f_studentId fee) (students db) = Some student
                  \<and> f_amount fee = Fin y"
  from h have v: "validate_body requestBody = Inr (PInf, m, t)"
    by (simp add: validate_body_ok)
  from f have s: "select_fee db feeId = Inr (fee, student)"
    by (simp add: select_fee_def)
  from f have c: "check_payable fee PInf = Some (AMOUNT_MISMATCH PInf (Fin y))"
    by (intro infinity_mismatch) blast+
  from h v s c show "PUT_payment env now user id_param requestBody db
                        = (db, Inl (AMOUNT_MISMATCH PInf (Fin y)))"
    unfolding PUT_payment_def by simp
next
  fix db' resp
  assume "PUT_payment env now user id_param requestBody db = (db', Inr resp)"
  from PUT_payment_success_cases[OF this] obtain feeId a m t fee student where
    v: "validate_body requestBody = Inr (a, m, t)"
    and s: "select_fee db feeId = Inr (fee, student)"
    and c: "check_payable fee a = None"
    by blast
  from v obtain body where b: "requestBody = Some body" "prop_of body ''amount_paid'' = VNum a"
    "\<not> js_le a (Fin 0)"
    unfolding validate_body_Inr_iff by blast
  have "\<exists>x. a = Fin x \<and> 0 < x"
    if fin: "(\<forall>f \<in> set (fees db). \<exists>y. f_amount f = Fin y) \<and> a \<noteq> NaN"
  proof -
    from s have "fee \<in> set (fees db)"
      by (auto simp: select_fee_Inr_iff find_Some_iff)
    with fin obtain y where y: "f_amount fee = Fin y" by blast
    from c have p: "f_status fee = ''pending'' \<or> f_status fee = ''overdue''"
      by (auto simp: check_payable_def split: if_splits)
    from infinity_mismatch[OF p y] c have "a \<noteq> PInf" by auto
    with b(3) fin not_js_le_zero[of a] show ?thesis by blast
  qed
  with b show "\<exists>body a. requestBody = Some body \<and> prop_of body ''amount_paid'' = VNum a
                  \<and> \<not> js_le a (Fin 0)
                  \<and> ((\<forall>f \<in> set (fees db). \<exists>y. f_amount f = Fin y) \<and> a \<noteq> NaN
                       \<longrightarrow> (\<exists>x. a = Fin x \<and> 0 < x))"
    by blast
next
  fix db' e
  assume "PUT_payment env now user id_param requestBody db = (db', Inl e)"
  then show "db' = db" by (rule PUT_payment_error_keeps_store)
qed

theorem nonpositive_amount_rejected_witness:
  "PUT_payment sample_builtins ex_now (Some ''admin'') ''1'' ex_request_zero ex_store
     = (ex_store, Inl INVALID_AMOUNT)
   \<and> PUT_payment sample_builtins ex_now (Some ''admin'') ''2'' ex_request_infinity ex_store300
     = (ex_store300, Inl (AMOUNT_MISMATCH PInf (Fin 300)))
   \<and> (\<exists>db' resp.
        PUT_payment sample_builtins ex_now (Some ''admin'') ''1'' ex_request ex_store = (db', Inr resp)
      \<and> prop_of (the ex_request) ''amount_paid'' = VNum (Fin 500))"
proof -
  have b: "ex_request_zero = Some (VObj [(''amount_paid'', VNum (Fin 0)),
      (''payment_method'', VStr ''cash''), (''transaction_id'', VStr ''TXN-004'')])
     \<and> (\<forall>a. prop_of (VObj [(''amount_paid'', VNum (Fin 0)),
      (''payment_method'', VStr ''cash''), (''transaction_id'', VStr ''TXN-004'')]) ''amount_paid'' = VNum a
         \<longrightarrow> js_le a (Fin 0))"
    by (simp add: ex_request_zero_def)
  from nonpositive_amount_rejected[where requestBody = ex_request_zero and env = sample_builtins
      and now = ex_now and user = "Some ''admin''" and id_param = "''1''" and db = ex_store,
      THEN conjunct1, THEN spec, THEN mp, OF b]
  obtain e where "PUT_payment sample_builtins ex_now (Some ''admin'') ''1'' ex_request_zero ex_store
     = (ex_store, Inl e)"
    by blast
  moreover have "snd (PUT_payment sample_builtins ex_now (Some ''admin'') ''1'' ex_request_zero ex_store)
     = Inl INVALID_AMOUNT"
    by (simp add: PUT_payment_def validate_body_def sample_eval ex_request_zero_def)
  ultimately have 1: "PUT_payment sample_builtins ex_now (Some ''admin'') ''1'' ex_request_zero ex_store
     = (ex_store, Inl INVALID_AMOUNT)"
    by simp
  have h: "Some ''admin'' = Some ''admin'' \<and> ''2'' \<noteq> [] \<and> parseInt sample_builtins (VStr ''2'') = Some 2
      \<and> ex_request_infinity = Some (VObj [(''amount_paid'', VNum PInf),
            (''payment_method'', VStr ''cash''), (''transaction_id'', VStr ''TXN-005'')])
      \<and> map_of [(''amount_paid'', VNum PInf), (''payment_method'', VStr ''cash''),
                 (''transaction_id'', VStr ''TXN-005'')] ''userId'' = None
      \<and> map_of [(''amount_paid'', VNum PInf), (''payment_method'', VStr ''cash''),
                 (''transaction_id'', VStr ''TXN-005'')] ''user_id'' = None
      \<and> map_of [(''amount_paid'', VNum PInf), (''payment_method'', VStr ''cash''),
                 (''transaction_id'', VStr ''TXN-005'')] ''amount_paid'' = Some (VNum PInf)
      \<and> map_of [(''amount_paid'', VNum PInf), (''payment_method'', VStr ''cash''),
                 (''transaction_id'', VStr ''TXN-005'')] ''payment_method'' = Some (VStr ''cash'')
      \<and> ''cash'' \<noteq> []
      \<and> map_of [(''amount_paid'', VNum PInf), (''payment_method'', VStr ''cash''),
                 (''transaction_id'', VStr ''TXN-005'')] ''transaction_id'' = Some (VStr ''TXN-005'')
      \<and> ''TXN-005'' \<noteq> []"
    by (simp add: ex_request_infinity_def sample_eval)
  have f: "find (\<lambda>f. f_id f = 2) (fees ex_store300) = Some ex_fee300
      \<and> (f_status ex_fee300 = ''pending'' \<or> f_status ex_fee300 = ''overdue'')
      \<and> find (\<lambda>s. Some (s_id s) = f_studentId ex_fee300) (students ex_store300) = Some ex_student
      \<and> f_amount ex_fee300 = Fin 300"
    by (simp add: ex_store300_def ex_fee300_def ex_data)
  have 2: "PUT_payment sample_builtins ex_now (Some ''admin'') ''2'' ex_request_infinity ex_store300
     = (ex_store300, Inl (AMOUNT_MISMATCH PInf (Fin 300)))"
    by (rule nonpositive_amount_rejected[where requestBody = ex_request_infinity
          and env = sample_builtins and user = "Some ''admin''" and id_param = "''2''"
          and db = ex_store300,
          THEN conjunct2, THEN conjunct1, THEN spec, THEN spec, THEN spec, THEN spec, THEN spec,
          THEN mp, OF h, THEN conjunct2, THEN spec, THEN spec, THEN spec, THEN mp, OF f])
  obtain db' r where p: "PUT_payment sample_builtins ex_now (Some ''admin'') ''1'' ex_request ex_store
      = (db', r)"
    by (cases "PUT_payment sample_builtins ex_now (Some ''admin'') ''1'' ex_request ex_store")
  have "\<exists>resp. r = Inr resp"
    using p by (auto simp: PUT_payment_def validate_body_def select_fee_def check_payable_def
          apply_payment_def update_fee_paid_def update_student_balance_def mark_paid_def Let_def
          sample_eval double_eval ex_data)
  then obtain resp where r: "r = Inr resp" by blast
  from nonpositive_amount_rejected[where requestBody = ex_request and env = sample_builtins
      and now = ex_now and user = "Some ''admin''" and id_param = "''1''" and db = ex_store,
      THEN conjunct2, THEN conjunct2, THEN conjunct1, THEN spec, THEN spec, THEN mp,
      OF p[unfolded r]]
  have "\<exists>x. prop_of (the ex_request) ''amount_paid'' = VNum (Fin x) \<and> 0 < x"
    by (auto simp: ex_data)
  then have "prop_of (the ex_request) ''amount_paid'' = VNum (Fin 500)"
    by (simp add: ex_request_def)
  with p r have 3: "\<exists>db' resp.
        PUT_payment sample_builtins ex_now (Some ''admin'') ''1'' ex_request ex_store = (db', Inr resp)
      \<and> prop_of (the ex_request) ''amount_paid'' = VNum (Fin 500)"
    by blast
  from 1 2 3 show ?thesis by blast
qed

text \<open>
  \<open>Infinity\<close> (the JSON literal \<open>1e999\<close>) is not rejected as an invalid amount: it
  passes the validation and fails the comparison with the fee's amount.
\<close>

theorem infinite_amount_counterexample:
  "PUT_payment sample_builtins ex_now (Some ''admin'') ''1'' ex_request_infinity ex_store
     = (ex_store, Inl (AMOUNT_MISMATCH PInf (Fin 500)))"
  by (simp add: PUT_payment_def validate_body_def select_fee_def check_payable_def
        sample_eval double_eval ex_request_infinity_def ex_data)

lemma distinct_find_unique:
  assumes "distinct (map key xs)" "find (\<lambda>x. key x = k) xs = Some y" "x \<in> set xs" "key x = k"
  shows "x = y"
  using assms
proof (induction xs)
  case Nil
  then show ?case by simp
next
  case (Cons z zs)
  show ?case
  proof (cases "key z = k")
    case True
    with Cons.prems have "y = z" by simp
    moreover from True Cons.prems have "x = z" by (auto simp: image_iff)
    ultimately show ?thesis by simp
  next
    case False
    with Cons show ?thesis by auto
  qed
qed

lemma apply_payment_success:
  assumes "apply_payment env now uid feeId fee student a m t db = (db', Inr resp)"
  shows "fees db' = map (\<lambda>f. if f_id f = feeId then mark_paid now f else f) (fees db)"
    and "students db' = map (\<lambda>s. if s_id s = s_id student
                              then s\<lparr>s_balance := Some (js_sub (balance_or_0 (s_balance student)) a),
                                     s_updatedAt := now\<rparr>
                              else s) (students db)"
  using assms
  by (auto simp: apply_payment_def update_fee_paid_def update_student_balance_def Let_def
        split: list.splits)

lemma PUT_fees_keeps_students:
  "students (fst (PUT_fees env now id_param requestBody db)) = students db"
  unfolding PUT_fees_def
  by (simp split: option.splits)

lemma call_step_fees:
  "list_all2
     (\<lambda>f f'. f_id f' = f_id f \<and> f_amount f' = f_amount f
            \<and> (f_status f = ''paid'' \<longrightarrow> f_status f' = ''paid'')
            \<and> (f_status f' \<noteq> f_status f \<longrightarrow> f_status f' = ''paid''))
     (fees db) (fees (snd (call_step env c db)))"
proof (cases c)
  case (Ready user id_param requestBody now)
  have "snd (call_step env (Ready user id_param requestBody now) db) = db"
    by (simp split: option.splits sum.splits prod.splits)
  with Ready show ?thesis by (simp add: list_all2_same)
next
  case (Checked w)
  have "fees (snd (call_step env (Checked w) db))
      = map (\<lambda>f. if f_id f = pw_feeId w then mark_paid (pw_currentTimestamp w) f else f) (fees db)"
    by (simp add: update_fee_paid_def split: list.splits)
  with Checked show ?thesis
    by (simp add: list_all2_map2 list_all2_same mark_paid_def)
next
  case (FeeWritten w row)
  then show ?thesis
    by (simp add: Let_def update_student_balance_def list_all2_same)
next
  case (Finished r)
  then show ?thesis by (simp add: list_all2_same)
qed

lemma PUT_payment_success_effect:
  assumes "PUT_payment env now user id_param requestBody db = (db', Inr resp)"
  shows "\<exists>fee student a.
      find (\<lambda>f. f_id f = f_id fee) (fees db) = Some fee
    \<and> (f_status fee = ''pending'' \<or> f_status fee = ''overdue'')
    \<and> find (\<lambda>s. Some (s_id s) = f_studentId fee) (students db) = Some student
    \<and> fees db' = map (\<lambda>f. if f_id f = f_id fee
                           then f\<lparr>f_status := ''paid'', f_paidDate := Some now, f_updatedAt := now\<rparr>
                           else f) (fees db)
    \<and> students db' = map (\<lambda>s. if s_id s = s_id student
                               then s\<lparr>s_balance := Some (js_sub (balance_or_0 (s_balance student)) a),
                                      s_updatedAt := now\<rparr>
                               else s) (students db)
    \<and> pd_amount_paid (paymentDetails resp) = a
    \<and> updated_fee resp = fee\<lparr>f_status := ''paid'', f_paidDate := Some now, f_updatedAt := now\<rparr>"
proof -
  from PUT_payment_success_cases[OF assms] obtain uid feeId a m t fee student where
    u: "user = Some uid" "id_param \<noteq> []" "parseInt env (VStr id_param) = Some feeId"
    and v: "validate_body requestBody = Inr (a, m, t)"
    and s: "select_fee db feeId = Inr (fee, student)"
    and c: "check_payable fee a = None"
    by blast
  from s have found: "find (\<lambda>f. f_id f = feeId) (fees db) = Some fee"
    and st: "find (\<lambda>s. Some (s_id s) = f_studentId fee) (students db) = Some student"
    by (simp_all add: select_fee_Inr_iff)
  from found have k: "f_id fee = feeId" by (auto simp: find_Some_iff)
  from c have payable: "f_status fee = ''pending'' \<or> f_status fee = ''overdue''"
    by (auto simp: check_payable_def split: if_splits)
  have mp: "mark_paid now = (\<lambda>f. f\<lparr>f_status := ''paid'', f_paidDate := Some now, f_updatedAt := now\<rparr>)"
    by (simp add: fun_eq_iff mark_paid_def)
  from PUT_payment_ok[OF u v s c, of now] assms
  have "db' = db\<lparr>fees := map (\<lambda>f. if f_id f = feeId then mark_paid now f else f) (fees db),
        students := map (\<lambda>s. if s_id s = s_id student
                              then s\<lparr>s_balance := Some (js_sub (balance_or_0 (s_balance student)) a),
                                     s_updatedAt := now\<rparr>
                              else s) (students db)\<rparr>"
    and "pd_amount_paid (paymentDetails resp) = a"
    and "updated_fee resp = mark_paid now fee"
    by auto
  with found st payable show ?thesis
    unfolding mp k[symmetric]
    by (intro exI[of _ fee] exI[of _ student] exI[of _ a]) simp
qed

section \<open>The transitions of a fee's status\<close>

text \<open>
  C7, as amended. A call of the payment handler that runs with no other write between
  its database calls leaves every paid fee exactly as it is; the only change it makes
  to a fee is to take a pending or overdue fee to paid, setting its \<open>paidDate\<close> and
  \<open>updatedAt\<close> and nothing else, and it does so only in a call that succeeds, which
  in the same call replaces the balance of the fee's student by that balance minus the
  amount paid; a call that fails changes nothing (ids are the primary key of the fee
  table). No single database call of the payment handler, whatever ran before it,
  changes the amount of a fee or takes a status away from paid. The generic update
  handler never touches a student row. A paid fee is however not protected: the fee
  update of a payment call that overlaps another rewrites its \<open>paidDate\<close>, and the
  generic update handler is free to overwrite the amount, the \<open>paidDate\<close> and the
  status of any fee, a paid one included: see the counterexample.
\<close>

theorem payment_status_transitions:
  assumes pk: "distinct (map f_id (fees db))"
  shows "(\<forall>db' r. PUT_payment env now user id_param requestBody db = (db', r) \<longrightarrow>
            list_all2
              (\<lambda>f f'. (f_status f = ''paid'' \<longrightarrow> f' = f)
                     \<and> (f' \<noteq> f \<longrightarrow> (f_status f = ''pending'' \<or> f_status f = ''overdue'')
                                   \<and> f' = f\<lparr>f_status := ''paid'', f_paidDate := Some now,
                                             f_updatedAt := now\<rparr>
                                   \<and> (\<exists>resp. r = Inr resp)))
              (fees db) (fees db')
          \<and> (students db' \<noteq> students db \<longrightarrow> (\<exists>resp. r = Inr resp))
          \<and> (\<forall>e. r = Inl e \<longrightarrow> db' = db)
          \<and> (\<forall>resp. r = Inr resp \<longrightarrow>
                (\<exists>fee student a.
                    find (\<lambda>f. f_id f = f_id fee) (fees db) = Some fee
                  \<and> (f_status fee = ''pending'' \<or> f_status fee = ''overdue'')
                  \<and> find (\<lambda>s. Some (s_id s) = f_studentId fee) (students db) = Some student
                  \<and> fees db' = map (\<lambda>f. if f_id f = f_id fee
                                         then f\<lparr>f_status := ''paid'', f_paidDate := Some now,
                                                f_updatedAt := now\<rparr>
                                         else f) (fees db)
                  \<and> students db'
                      = map (\<lambda>s. if s_id s = s_id student
                                 then s\<lparr>s_balance :=
                                          Some (js_sub (balance_or_0 (s_balance student)) a),
                                        s_updatedAt := now\<rparr>
                                 else s) (students db)
                  \<and> pd_amount_paid (paymentDetails resp) = a
                  \<and> updated_fee resp = fee\<lparr>f_status := ''paid'', f_paidDate := Some now,
                                            f_updatedAt := now\<rparr>)))
    \<and> (\<forall>c. list_all2
              (\<lambda>f f'. f_id f' = f_id f \<and> f_amount f' = f_amount f
                     \<and> (f_status f = ''paid'' \<longrightarrow> f_status f' = ''paid'')
                     \<and> (f_status f' \<noteq> f_status f \<longrightarrow> f_status f' = ''paid''))
              (fees db) (fees (snd (call_step env c db))))
    \<and> students (fst (PUT_fees env now' id_param' requestBody' db)) = students db"
proof (intro conjI allI impI)
  fix db' r
  assume run: "PUT_payment env now user id_param requestBody db = (db', r)"
  show "list_all2
              (\<lambda>f f'. (f_status f = ''paid'' \<longrightarrow> f' = f)
                     \<and> (f' \<noteq> f \<longrightarrow> (f_status f = ''pending'' \<or> f_status f = ''overdue'')
                                   \<and> f' = f\<lparr>f_status := ''paid'', f_paidDate := Some now,
                                             f_updatedAt := now\<rparr>
                                   \<and> (\<exists>resp. r = Inr resp)))
              (fees db) (fees db')"
  proof (cases r)
    case (Inl e)
    with run have "db' = db" by (auto dest: PUT_payment_error_keeps_store)
    then show ?thesis by (simp add: list_all2_same)
  next
    case (Inr resp)
    with run PUT_payment_success_cases[of env now user id_param requestBody db db' resp]
    obtain uid feeId a m t fee student where
      s: "select_fee db feeId = Inr (fee, student)"
      and c: "check_payable fee a = None"
      and ap: "apply_payment env now uid feeId fee student a m t db = (db', Inr resp)"
      by auto
    from s have found: "find (\<lambda>f. f_id f = feeId) (fees db) = Some fee"
      by (simp add: select_fee_Inr_iff)
    from c have payable: "f_status fee = ''pending'' \<or> f_status fee = ''overdue''"
      by (auto simp: check_payable_def split: if_splits)
    have only: "f = fee" if "f \<in> set (fees db)" "f_id f = feeId" for f
      using distinct_find_unique[OF pk found that] .
    have "list_all2
             (\<lambda>f f'. (f_status f = ''paid'' \<longrightarrow> f' = f)
                    \<and> (f' \<noteq> f \<longrightarrow> (f_status f = ''pending'' \<or> f_status f = ''overdue'')
                                  \<and> f' = f\<lparr>f_status := ''paid'', f_paidDate := Some now,
                                            f_updatedAt := now\<rparr>
                                  \<and> (\<exists>resp. r = Inr resp)))
             (fees db) (map (\<lambda>f. if f_id f = feeId then mark_paid now f else f) (fees db))"
      unfolding list_all2_map2 list_all2_same
      using only payable Inr by (auto simp: mark_paid_def)
    with apply_payment_success(1)[OF ap] show ?thesis by simp
  qed
next
  fix db' r
  assume run: "PUT_payment env now user id_param requestBody db = (db', r)"
    and "students db' \<noteq> students db"
  then show "\<exists>resp. r = Inr resp"
    by (cases r) (auto dest: PUT_payment_error_keeps_store)
next
  fix db' r e
  assume "PUT_payment env now user id_param requestBody db = (db', r)" "r = Inl e"
  then show "db' = db" by (auto dest: PUT_payment_error_keeps_store)
next
  fix db' r resp
  assume "PUT_payment env now user id_param requestBody db = (db', r)" "r = Inr resp"
  then have "PUT_payment env now user id_param requestBody db = (db', Inr resp)" by simp
  then show "\<exists>fee student a.
                    find (\<lambda>f. f_id f = f_id fee) (fees db) = Some fee
                  \<and> (f_status fee = ''pending'' \<or> f_status fee = ''overdue'')
                  \<and> find (\<lambda>s. Some (s_id s) = f_studentId fee) (students db) = Some student
                  \<and> fees db' = map (\<lambda>f. if f_id f = f_id fee
                                         then f\<lparr>f_status := ''paid'', f_paidDate := Some now,
                                                f_updatedAt := now\<rparr>
                                         else f) (fees db)
                  \<and> students db'
                      = map (\<lambda>s. if s_id s = s_id student
                                 then s\<lparr>s_balance :=
                                          Some (js_sub (balance_or_0 (s_balance student)) a),
                                        s_updatedAt := now\<rparr>
                                 else s) (students db)
                  \<and> pd_amount_paid (paymentDetails resp) = a
                  \<and> updated_fee resp = fee\<lparr>f_status := ''paid'', f_paidDate := Some now,
                                            f_updatedAt := now\<rparr>"
    by (rule PUT_payment_success_effect)
next
  fix c
  show "list_all2
              (\<lambda>f f'. f_id f' = f_id f \<and> f_amount f' = f_amount f
                     \<and> (f_status f = ''paid'' \<longrightarrow> f_status f' = ''paid'')
                     \<and> (f_status f' \<noteq> f_status f \<longrightarrow> f_status f' = ''paid''))
              (fees db) (fees (snd (call_step env c db)))"
    by (rule call_step_fees)
next
  show "students (fst (PUT_fees env now' id_param' requestBody' db)) = students db"
    by (rule PUT_fees_keeps_students)
qed

theorem payment_status_transitions_witness:
  "list_all2
     (\<lambda>f f'. f_status f = ''pending'' \<and> f' = f\<lparr>f_status := ''paid'', f_paidDate := Some ex_now,
                                                f_updatedAt := ex_now\<rparr>)
     (fees ex_store)
     (fees (fst (PUT_payment sample_builtins ex_now (Some ''admin'') ''1'' ex_request ex_store)))
   \<and> map s_balance
       (students (fst (PUT_payment sample_builtins ex_now (Some ''admin'') ''1'' ex_request ex_store)))
       = [Some (Fin 700)]
   \<and> fst (PUT_payment sample_builtins ex_later (Some ''admin'') ''1'' ex_replay ex_paid_store)
       = ex_paid_store"
proof -
  have d1: "distinct (map f_id (fees ex_store))" and d2: "distinct (map f_id (fees ex_paid_store))"
    by (simp_all add: ex_data)
  have r1: "PUT_payment sample_builtins ex_now (Some ''admin'') ''1'' ex_request ex_store
      = (fst (PUT_payment sample_builtins ex_now (Some ''admin'') ''1'' ex_request ex_store),
         snd (PUT_payment sample_builtins ex_now (Some ''admin'') ''1'' ex_request ex_store))"
    by simp
  have e1: "fst (PUT_payment sample_builtins ex_now (Some ''admin'') ''1'' ex_request ex_store)
      = ex_paid_store"
    by (simp add: PUT_payment_def validate_body_def select_fee_def check_payable_def
          apply_payment_def update_fee_paid_def update_student_balance_def mark_paid_def Let_def
          sample_eval double_eval ex_data)
  have r2: "PUT_payment sample_builtins ex_later (Some ''admin'') ''1'' ex_replay ex_paid_store
      = (fst (PUT_payment sample_builtins ex_later (Some ''admin'') ''1'' ex_replay ex_paid_store),
         snd (PUT_payment sample_builtins ex_later (Some ''admin'') ''1'' ex_replay ex_paid_store))"
    by simp
  from payment_status_transitions[OF d1, THEN conjunct1, THEN spec, THEN spec, THEN mp, OF r1,
      THEN conjunct1] e1
  have a: "list_all2
     (\<lambda>f f'. f_status f = ''pending'' \<and> f' = f\<lparr>f_status := ''paid'', f_paidDate := Some ex_now,
                                                f_updatedAt := ex_now\<rparr>)
     (fees ex_store)
     (fees (fst (PUT_payment sample_builtins ex_now (Some ''admin'') ''1'' ex_request ex_store)))"
    by (simp add: ex_data)
  from payment_status_transitions[OF d2, THEN conjunct1, THEN spec, THEN spec, THEN mp, OF r2,
      THEN conjunct1]
  have "fees (fst (PUT_payment sample_builtins ex_later (Some ''admin'') ''1'' ex_replay ex_paid_store))
      = fees ex_paid_store"
    by (simp add: ex_data list_all2_Cons1)
  moreover have "fst (PUT_payment sample_builtins ex_later (Some ''admin'') ''1'' ex_replay ex_paid_store)
       = ex_paid_store"
    by (simp add: PUT_payment_def validate_body_def select_fee_def check_payable_def
          sample_eval double_eval ex_data)
  moreover have "map s_balance
       (students (fst (PUT_payment sample_builtins ex_now (Some ''admin'') ''1'' ex_request ex_store)))
       = [Some (Fin 700)]"
    unfolding e1 by (simp add: ex_data)
  ultimately show ?thesis using a by simp
qed

text \<open>
  The generic update takes the paid fee of the scenario back to pending, with another
  amount and no \<open>paidDate\<close>, and it marks the pending fee paid without a decrement
  of the balance. And of two payment requests that overlap, the second rewrites the
  \<open>paidDate\<close> of the fee that the first has paid.
\<close>

theorem generic_update_reverts_paid_fee_counterexample:
  "map f_status (fees ex_paid_store) = [''paid'']
   \<and> map f_amount (fees ex_paid_store) = [Fin 500]
   \<and> map f_paidDate (fees ex_paid_store) = [Some ex_now]
   \<and> map f_status (fees (fst (PUT_fees sample_builtins ex_later (Some ''1'') ex_revert ex_paid_store)))
       = [''pending'']
   \<and> map f_amount (fees (fst (PUT_fees sample_builtins ex_later (Some ''1'') ex_revert ex_paid_store)))
       = [Fin 1]
   \<and> map f_paidDate (fees (fst (PUT_fees sample_builtins ex_later (Some ''1'') ex_revert ex_paid_store)))
       = [None]
   \<and> map f_status (fees (fst (PUT_fees sample_builtins ex_later (Some ''1'') ex_set_paid ex_store)))
       = [''paid'']
   \<and> map s_balance (students (fst (PUT_fees sample_builtins ex_later (Some ''1'') ex_set_paid ex_store)))
       = [Some (Fin 1200)]
   \<and> succeeded (fst ex_overlap_mid)
   \<and> map f_status (fees (snd (snd ex_overlap_mid))) = [''paid'']
   \<and> map f_paidDate (fees (snd (snd ex_overlap_mid))) = [Some ex_now]
   \<and> map f_paidDate (fees (snd (snd ex_overlap))) = [Some ex_later]"
proof -
  have g: "map f_status (fees ex_paid_store) = [''paid'']
   \<and> map f_amount (fees ex_paid_store) = [Fin 500]
   \<and> map f_paidDate (fees ex_paid_store) = [Some ex_now]
   \<and> map f_status (fees (fst (PUT_fees sample_builtins ex_later (Some ''1'') ex_revert ex_paid_store)))
       = [''pending'']
   \<and> map f_amount (fees (fst (PUT_fees sample_builtins ex_later (Some ''1'') ex_revert ex_paid_store)))
       = [Fin 1]
   \<and> map f_paidDate (fees (fst (PUT_fees sample_builtins ex_later (Some ''1'') ex_revert ex_paid_store)))
       = [None]
   \<and> map f_status (fees (fst (PUT_fees sample_builtins ex_later (Some ''1'') ex_set_paid ex_store)))
       = [''paid'']
   \<and> map s_balance (students (fst (PUT_fees sample_builtins ex_later (Some ''1'') ex_set_paid ex_store)))
       = [Some (Fin 1200)]"
    by (simp add: PUT_fees_def fee_update_error_def apply_updates_def set_studentId_def
        set_amount_def set_dueDate_def set_type_def set_status_def set_paidDate_def
        validStatuses_def validTypes_def ex_revert_def ex_set_paid_def sample_eval ex_data)
  have o: "succeeded (fst ex_overlap_mid)
   \<and> map f_status (fees (snd (snd ex_overlap_mid))) = [''paid'']
   \<and> map f_paidDate (fees (snd (snd ex_overlap_mid))) = [Some ex_now]
   \<and> map f_paidDate (fees (snd (snd ex_overlap))) = [Some ex_later]"
    by (simp add: ex_overlap_def ex_overlap_mid_def validate_body_def select_fee_def
        check_payable_def update_fee_paid_def update_student_balance_def mark_paid_def Let_def
        sample_eval double_eval ex_data)
  from g o show ?thesis by simp
qed

lemma run_schedule_append:
  "run_schedule env (xs @ ys) cfg = run_schedule env ys (run_schedule env xs cfg)"
proof (induction xs arbitrary: cfg)
  case Nil
  then show ?case by simp
next
  case (Cons x xs)
  obtain c1 c2 db where cfg: "cfg = (c1, c2, db)" by (cases cfg)
  show ?case
    using Cons.IH by (cases x) (simp_all add: cfg)
qed

lemma three_steps:
  "call_step env (fst (call_step env (fst (call_step env (Ready user id_param requestBody now) db))
                         (snd (call_step env (Ready user id_param requestBody now) db))))
     (snd (call_step env (fst (call_step env (Ready user id_param requestBody now) db))
                         (snd (call_step env (Ready user id_param requestBody now) db))))
   = (Finished (snd (PUT_payment env now user id_param requestBody db)),
      fst (PUT_payment env now user id_param requestBody db))"
proof (cases user)
  case None
  then show ?thesis by (simp add: PUT_payment_def)
next
  case u: (Some uid)
  show ?thesis
  proof (cases "if id_param = [] then None else parseInt env (VStr id_param)")
    case None
    with u show ?thesis by (simp add: PUT_payment_def)
  next
    case i: (Some feeId)
    show ?thesis
    proof (cases "validate_body requestBody")
      case (Inl e)
      with u i show ?thesis by (simp add: PUT_payment_def)
    next
      case (Inr v)
      obtain a m t where "v = (a, m, t)" by (cases v)
      with Inr have v: "validate_body requestBody = Inr (a, m, t)" by simp
      show ?thesis
      proof (cases "select_fee db feeId")
        case (Inl e)
        with u i v show ?thesis by (simp add: PUT_payment_def)
      next
        case (Inr fs)
        obtain fee student where "fs = (fee, student)" by (cases fs)
        with Inr have s: "select_fee db feeId = Inr (fee, student)" by simp
        show ?thesis
        proof (cases "check_payable fee a")
          case (Some e)
          with u i v s show ?thesis by (simp add: PUT_payment_def)
        next
          case c: None
          obtain db1 rows where w: "update_fee_paid db feeId now = (db1, rows)"
            by (cases "update_fee_paid db feeId now")
          show ?thesis
          proof (cases rows)
            case Nil
            with u i v s c w show ?thesis
              by (simp add: PUT_payment_def apply_payment_def)
          next
            case (Cons row rest)
            with u i v s c w show ?thesis
              by (simp add: PUT_payment_def apply_payment_def Let_def)
          qed
        qed
      qed
    qed
  qed
qed

lemma first_call_runs:
  "run_schedule env [False, False, False] (Ready user id_param requestBody now, c2, db)
   = (Finished (snd (PUT_payment env now user id_param requestBody db)), c2,
      fst (PUT_payment env now user id_param requestBody db))"
  by (simp only: run_schedule.simps three_steps fst_conv snd_conv)

lemma second_call_runs:
  "run_schedule env [True, True, True] (c1, Ready user id_param requestBody now, db)
   = (c1, Finished (snd (PUT_payment env now user id_param requestBody db)),
      fst (PUT_payment env now user id_param requestBody db))"
  by (simp only: run_schedule.simps three_steps fst_conv snd_conv)

lemma PUT_payment_already_paid:
  assumes "user = Some uid" "id_param \<noteq> []" "parseInt env (VStr id_param) = Some feeId"
    and "validate_body requestBody = Inr (a, m, t)"
    and "find (\<lambda>f. f_id f = feeId) (fees db) = Some fee" "f_status fee = ''paid''"
    and "find (\<lambda>s. Some (s_id s) = f_studentId fee) (students db) = Some student"
  shows "PUT_payment env now user id_param requestBody db = (db, Inl FEE_ALREADY_PAID)"
  using assms unfolding PUT_payment_def by (simp add: select_fee_def check_payable_def)

lemmas ex_campus_data =
  ex_campus_def ex_enrollment_def ex_course_def ex_fee300_def ex_data

lemma percentage_zero: "percentage p 0 = Fin 0"
  by (simp add: percentage_def)

lemma percentage_bounds:
  assumes "p \<le> t" "0 < t"
  shows "\<exists>k. percentage p t = Fin (of_int k) \<and> 0 \<le> k \<and> k \<le> 100
           \<and> \<bar>of_int k - 100 * of_nat p / of_nat t\<bar> \<le> (1 / 2 + 200 / 2 ^ 53 :: rat)"
proof -
  let ?x = "of_nat p / of_nat t :: rat"
  from assms have t: "(0::rat) < of_nat t" and pt: "(of_nat p :: rat) \<le> of_nat t" by simp_all
  have x0: "0 \<le> ?x" by simp
  have x1: "?x \<le> 1" using t pt by (simp add: pos_divide_le_eq)
  from round_to_double_le[of ?x 1 0] x0 x1 obtain r where
    r: "round_to_double ?x = Fin r" "0 \<le> r" "r \<le> 1"
    by auto
  have "\<bar>r - ?x\<bar> \<le> max (\<bar>?x\<bar> / 2 ^ 53) (1 / 2 ^ 1075)"
    using r(1) by (rule round_to_double_error)
  also have "\<dots> \<le> 1 / 2 ^ 53"
  proof (rule max.boundedI)
    show "\<bar>?x\<bar> / 2 ^ 53 \<le> 1 / 2 ^ 53" using x0 x1 by (simp add: divide_right_mono)
    show "(1::rat) / 2 ^ 1075 \<le> 1 / 2 ^ 53" by simp
  qed
  finally have er: "\<bar>r - ?x\<bar> \<le> 1 / 2 ^ 53" .
  from r have "0 \<le> r * 100" "r * 100 \<le> of_int 100 * 2 powi 0" by simp_all
  from round_to_double_le[OF this] obtain w where
    w: "round_to_double (r * 100) = Fin w" "0 \<le> w" "w \<le> 100"
    by auto
  have "\<bar>w - r * 100\<bar> \<le> max (\<bar>r * 100\<bar> / 2 ^ 53) (1 / 2 ^ 1075)"
    using w(1) by (rule round_to_double_error)
  also have "\<dots> \<le> 100 / 2 ^ 53"
  proof (rule max.boundedI)
    show "\<bar>r * 100\<bar> / 2 ^ 53 \<le> 100 / 2 ^ 53" using r by (simp add: divide_right_mono)
    show "(1::rat) / 2 ^ 1075 \<le> 100 / 2 ^ 53" by simp
  qed
  finally have ew: "\<bar>w - r * 100\<bar> \<le> 100 / 2 ^ 53" .
  let ?k = "\<lfloor>w + 1 / 2\<rfloor>"
  have k0: "0 \<le> ?k" using w(2) by (simp add: zero_le_floor)
  have k1: "?k \<le> 100" using w(3) by (simp add: floor_le_iff)
  have kw: "\<bar>of_int ?k - w\<bar> \<le> 1 / 2" by linarith
  have "(100 * of_nat p / of_nat t :: rat) = 100 * ?x" by simp
  moreover have "\<bar>of_int ?k - 100 * ?x\<bar> \<le> 1 / 2 + 100 / 2 ^ 53 + 100 * (1 / 2 ^ 53)"
    using kw ew er by linarith
  ultimately have "\<bar>of_int ?k - 100 * of_nat p / of_nat t\<bar> \<le> (1 / 2 + 200 / 2 ^ 53 :: rat)"
    by simp
  moreover have "percentage p t = Fin (of_int ?k)"
    using assms(2) t r(1) w(1) by (simp add: percentage_def)
  ultimately show ?thesis using k0 k1 by (intro exI[of _ ?k]) simp
qed

lemma percentage_formula:
  "percentage p n
     = (if n = 0 then Fin 0
        else Math_round (js_mul (js_div (Fin (of_nat p)) (Fin (of_nat n))) (Fin 100)))"
  by (simp add: percentage_def)

lemma percentage_range:
  assumes "p \<le> n"
  shows "\<exists>k. percentage p n = Fin (of_int k) \<and> 0 \<le> k \<and> k \<le> 100
          \<and> (n \<noteq> 0 \<longrightarrow> \<bar>of_int k - 100 * of_nat p / of_nat n\<bar> \<le> (1 / 2 + 200 / 2 ^ 53 :: rat))"
proof (cases "n = 0")
  case True
  then show ?thesis by (intro exI[of _ 0]) (simp add: percentage_def)
next
  case False
  then have "0 < n" by simp
  from percentage_bounds[OF assms this] False show ?thesis by blast
qed

section \<open>The percentages of the dashboard\<close>

text \<open>
  C6. The report's \<open>completionRate\<close> is \<open>Math.round\<close> of the active enrollments over all
  enrollments times 100, and its \<open>overallPercentage\<close> is \<open>Math.round\<close> of the present
  attendance records over all attendance records times 100, the quotient and the
  product being those of JavaScript; each is exactly 0 when its total is 0. Each is an
  integer from 0 to 100 (never NaN or an infinity), within \<open>1/2 + 200 / 2^53\<close> of the
  exact percentage.
\<close>

theorem dashboard_percentages:
  "es_total (enrollmentStats (GET_dashboard db)) = length (enrollments db)
   \<and> es_active (enrollmentStats (GET_dashboard db))
       = length (filter (\<lambda>e. e_status e = ''active'') (enrollments db))
   \<and> as_totalRecords (attendanceStats (GET_dashboard db)) = length (attendance db)
   \<and> as_presentRecords (attendanceStats (GET_dashboard db))
       = length (filter (\<lambda>a. a_status a = ''present'') (attendance db))
   \<and> es_completionRate (enrollmentStats (GET_dashboard db))
       = (if enrollments db = [] then Fin 0
          else Math_round
                 (js_mul
                    (js_div
                       (Fin (of_nat (length (filter (\<lambda>e. e_status e = ''active'') (enrollments db)))))
                       (Fin (of_nat (length (enrollments db)))))
                    (Fin 100)))
   \<and> as_overallPercentage (attendanceStats (GET_dashboard db))
       = (if attendance db = [] then Fin 0
          else Math_round
                 (js_mul
                    (js_div
                       (Fin (of_nat (length (filter (\<lambda>a. a_status a = ''present'') (attendance db)))))
                       (Fin (of_nat (length (attendance db)))))
                    (Fin 100)))
   \<and> (enrollments db = [] \<longrightarrow> es_completionRate (enrollmentStats (GET_dashboard db)) = Fin 0)
   \<and> (attendance db = [] \<longrightarrow> as_overallPercentage (attendanceStats (GET_dashboard db)) = Fin 0)
   \<and> (\<exists>k. es_completionRate (enrollmentStats (GET_dashboard db)) = Fin (of_int k)
          \<and> 0 \<le> k \<and> k \<le> 100
          \<and> (enrollments db \<noteq> [] \<longrightarrow>
                \<bar>of_int k
                   - 100 * of_nat (length (filter (\<lambda>e. e_status e = ''active'') (enrollments db)))
                       / of_nat (length (enrollments db))\<bar>
                \<le> (1 / 2 + 200 / 2 ^ 53 :: rat)))
   \<and> (\<exists>k. as_overallPercentage (attendanceStats (GET_dashboard db)) = Fin (of_int k)
          \<and> 0 \<le> k \<and> k \<le> 100
          \<and> (attendance db \<noteq> [] \<longrightarrow>
                \<bar>of_int k
                   - 100 * of_nat (length (filter (\<lambda>a. a_status a = ''present'') (attendance db)))
                       / of_nat (length (attendance db))\<bar>
                \<le> (1 / 2 + 200 / 2 ^ 53 :: rat)))"
proof -
  let ?active = "length (filter (\<lambda>e. e_status e = ''active'') (enrollments db))"
  let ?present = "length (filter (\<lambda>a. a_status a = ''present'') (attendance db))"
  have fields: "es_total (enrollmentStats (GET_dashboard db)) = length (enrollments db)"
    "es_active (enrollmentStats (GET_dashboard db)) = ?active"
    "as_totalRecords (attendanceStats (GET_dashboard db)) = length (attendance db)"
    "as_presentRecords (attendanceStats (GET_dashboard db)) = ?present"
    "es_completionRate (enrollmentStats (GET_dashboard db)) = percentage ?active (length (enrollments db))"
    "as_overallPercentage (attendanceStats (GET_dashboard db))
       = percentage ?present (length (attendance db))"
    by (simp_all add: GET_dashboard_def Let_def)
  have e: "?active \<le> length (enrollments db)" and a: "?present \<le> length (attendance db)"
    by simp_all
  have c1: "percentage ?active (length (enrollments db))
       = (if enrollments db = [] then Fin 0
          else Math_round
                 (js_mul (js_div (Fin (of_nat ?active)) (Fin (of_nat (length (enrollments db)))))
                    (Fin 100)))"
    and c2: "percentage ?present (length (attendance db))
       = (if attendance db = [] then Fin 0
          else Math_round
                 (js_mul (js_div (Fin (of_nat ?present)) (Fin (of_nat (length (attendance db)))))
                    (Fin 100)))"
    by (simp_all add: percentage_def)
  have z1: "enrollments db = [] \<longrightarrow> percentage ?active (length (enrollments db)) = Fin 0"
    and z2: "attendance db = [] \<longrightarrow> percentage ?present (length (attendance db)) = Fin 0"
    by (simp_all add: percentage_def)
  have r1: "\<exists>k. percentage ?active (length (enrollments db)) = Fin (of_int k)
          \<and> 0 \<le> k \<and> k \<le> 100
          \<and> (enrollments db \<noteq> [] \<longrightarrow>
                \<bar>of_int k - 100 * of_nat ?active / of_nat (length (enrollments db))\<bar>
                \<le> (1 / 2 + 200 / 2 ^ 53 :: rat))"
    using percentage_range[OF e] by simp
  have r2: "\<exists>k. percentage ?present (length (attendance db)) = Fin (of_int k)
          \<and> 0 \<le> k \<and> k \<le> 100
          \<and> (attendance db \<noteq> [] \<longrightarrow>
                \<bar>of_int k - 100 * of_nat ?present / of_nat (length (attendance db))\<bar>
                \<le> (1 / 2 + 200 / 2 ^ 53 :: rat))"
    using percentage_range[OF a] by simp
  show ?thesis
    unfolding fields by (intro conjI refl c1 c2 z1 z2 r1 r2)
qed

lemma two_thirds:
  "Math_round (js_mul (js_div (Fin 2) (Fin 3)) (Fin 100)) = Fin 67"
proof -
  have "round_to_double (2 / 3) = Fin (6004799503160661 / 9007199254740992)"
    using round_to_double_near[of "2 / 3" "- 1" 6004799503160661] by simp
  moreover have "round_to_double (6004799503160661 / 9007199254740992 * 100)
      = Fin (2345624805922133 / 35184372088832)"
    using round_to_double_near[of "150119987579016525 / 2251799813685248" 6 4691249611844266]
    by simp
  ultimately show ?thesis by (simp add: floor_eq_iff)
qed

lemma twenty_three_of_forty:
  "Math_round (js_mul (js_div (Fin 23) (Fin 40)) (Fin 100)) = Fin 57"
proof -
  have "round_to_double (23 / 40) = Fin (2589569785738035 / 4503599627370496)"
    using round_to_double_near[of "23 / 40" "- 1" 5179139571476070] by simp
  moreover have "round_to_double (2589569785738035 / 4503599627370496 * 100)
      = Fin (8092405580431359 / 140737488355328)"
    using round_to_double_near[of "64739244643450875 / 1125899906842624" 5 8092405580431359]
    by simp
  ultimately show ?thesis by (simp add: floor_eq_iff)
qed

theorem dashboard_percentages_witness:
  "attendance ex_campus = []
   \<and> as_overallPercentage (attendanceStats (GET_dashboard ex_campus)) = Fin 0
   \<and> length (enrollments ex_campus) = 3
   \<and> es_active (enrollmentStats (GET_dashboard ex_campus)) = 2
   \<and> es_completionRate (enrollmentStats (GET_dashboard ex_campus)) = Fin 67
   \<and> as_totalRecords (attendanceStats (GET_dashboard ex_term)) = 40
   \<and> as_presentRecords (attendanceStats (GET_dashboard ex_term)) = 23
   \<and> as_overallPercentage (attendanceStats (GET_dashboard ex_term)) = Fin 57"
proof -
  have a: "attendance ex_campus = []" by (simp add: ex_campus_def)
  have n: "enrollments ex_campus \<noteq> []"
    and l: "length (enrollments ex_campus) = 3"
    and k: "length (filter (\<lambda>e. e_status e = ''active'') (enrollments ex_campus)) = 2"
    by (simp_all add: ex_campus_def ex_enrollment_def)
  have t: "attendance ex_term \<noteq> []"
    and tl: "length (attendance ex_term) = 40"
    and tp: "length (filter (\<lambda>a. a_status a = ''present'') (attendance ex_term)) = 23"
    by (simp_all add: ex_term_def ex_attendance_def filter_map comp_def)
  from dashboard_percentages[of ex_campus] a n l k two_thirds
  have 1: "as_overallPercentage (attendanceStats (GET_dashboard ex_campus)) = Fin 0
   \<and> es_active (enrollmentStats (GET_dashboard ex_campus)) = 2
   \<and> es_completionRate (enrollmentStats (GET_dashboard ex_campus)) = Fin 67"
    by simp
  from dashboard_percentages[of ex_term] t tl tp twenty_three_of_forty
  have 2: "as_totalRecords (attendanceStats (GET_dashboard ex_term)) = 40
   \<and> as_presentRecords (attendanceStats (GET_dashboard ex_term)) = 23
   \<and> as_overallPercentage (attendanceStats (GET_dashboard ex_term)) = Fin 57"
    by simp
  from a l 1 2 show ?thesis by simp
qed

lemma order_desc_sorted: "sorted_wrt (\<lambda>x y. key x \<ge> key y) (order_desc key rows)"
  unfolding order_desc_def sorted_wrt_rev
  using sorted_sort_key[of key rows] by (simp add: sorted_map)

lemma order_desc_set: "set (order_desc key rows) = set rows"
  by (simp add: order_desc_def)

lemma take_sorted_top:
  assumes "sorted_wrt R xs" "x \<in> set xs"
  shows "x \<in> set (take n xs) \<or> (length (take n xs) = n \<and> (\<forall>y \<in> set (take n xs). R y x))"
proof (cases "x \<in> set (take n xs)")
  case True
  then show ?thesis by simp
next
  case False
  from assms(2) have "x \<in> set (take n xs @ drop n xs)" by simp
  then have "x \<in> set (take n xs) \<or> x \<in> set (drop n xs)"
    unfolding set_append by blast
  with False have d: "x \<in> set (drop n xs)" by blast
  then have "n < length xs" by (cases "n < length xs") auto
  then have len: "length (take n xs) = n" by simp
  from assms(1) have "sorted_wrt R (take n xs @ drop n xs)" by simp
  then have "\<forall>y \<in> set (take n xs). \<forall>z \<in> set (drop n xs). R y z"
    unfolding sorted_wrt_append by blast
  with d len show ?thesis by blast
qed

lemma set_join_enrollments:
  "(e, s, c) \<in> set (join_enrollments db) \<longleftrightarrow>
     e \<in> set (enrollments db) \<and> s \<in> set (students db) \<and> e_studentId e = Some (s_id s)
   \<and> c \<in> set (courses db) \<and> e_courseId e = Some (c_id c)"
  by (auto simp: join_enrollments_def)

lemma set_join_fees:
  "(f, s) \<in> set (join_fees db) \<longleftrightarrow>
     f \<in> set (fees db) \<and> s \<in> set (students db) \<and> f_studentId f = Some (s_id s)"
  by (auto simp: join_fees_def)

section \<open>The recent activity of the dashboard\<close>

text \<open>
  C8, as amended. The enrollment feed holds at most 10 enrollments that have a student
  row and a course row, with the name of the student and the title of the course,
  ordered by the creation time of the enrollment, latest first; every such enrollment
  that is left out is no later than each one shown. The fee feed holds at most 10 fees
  of status paid that have a student row, with the name of the student, ordered by
  \<open>paidDate\<close>, latest first and \<open>NULL\<close> last; every such fee that is left out has a
  \<open>paidDate\<close> no later than each one shown. The fee feed is not ordered by creation
  time.
\<close>

theorem recent_activity_feeds:
  "ra_enrollments (recentActivities (GET_dashboard db))
     = map select_enrollment (recent_enrollment_rows db)
   \<and> ra_feePayments (recentActivities (GET_dashboard db))
     = map select_fee_payment (recent_fee_rows db)
   \<and> length (recent_enrollment_rows db) \<le> 10 \<and> length (recent_fee_rows db) \<le> 10
   \<and> sorted_wrt (\<lambda>r r'. e_createdAt (fst r) \<ge> e_createdAt (fst r')) (recent_enrollment_rows db)
   \<and> sorted_wrt (\<lambda>r r'. f_paidDate (fst r) \<ge> f_paidDate (fst r')) (recent_fee_rows db)
   \<and> (\<forall>e s c. (e, s, c) \<in> set (recent_enrollment_rows db) \<longrightarrow>
          e \<in> set (enrollments db) \<and> s \<in> set (students db) \<and> e_studentId e = Some (s_id s)
        \<and> c \<in> set (courses db) \<and> e_courseId e = Some (c_id c)
        \<and> re_studentName (select_enrollment (e, s, c)) = s_name s
        \<and> re_courseName (select_enrollment (e, s, c)) = c_title c)
   \<and> (\<forall>f s. (f, s) \<in> set (recent_fee_rows db) \<longrightarrow>
          f \<in> set (fees db) \<and> f_status f = ''paid'' \<and> s \<in> set (students db)
        \<and> f_studentId f = Some (s_id s)
        \<and> rf_studentName (select_fee_payment (f, s)) = s_name s)
   \<and> (\<forall>e s c. e \<in> set (enrollments db) \<and> s \<in> set (students db) \<and> e_studentId e = Some (s_id s)
          \<and> c \<in> set (courses db) \<and> e_courseId e = Some (c_id c) \<longrightarrow>
          (e, s, c) \<in> set (recent_enrollment_rows db)
        \<or> (length (recent_enrollment_rows db) = 10
           \<and> (\<forall>r \<in> set (recent_enrollment_rows db). e_createdAt e \<le> e_createdAt (fst r))))
   \<and> (\<forall>f s. f \<in> set (fees db) \<and> f_status f = ''paid'' \<and> s \<in> set (students db)
          \<and> f_studentId f = Some (s_id s) \<longrightarrow>
          (f, s) \<in> set (recent_fee_rows db)
        \<or> (length (recent_fee_rows db) = 10
           \<and> (\<forall>r \<in> set (recent_fee_rows db). f_paidDate f \<le> f_paidDate (fst r))))"
proof -
  let ?ek = "\<lambda>(e, s, c). e_createdAt (e :: enrollment)"
  let ?fk = "\<lambda>(f, s). f_paidDate (f :: fee)"
  let ?paid = "filter (\<lambda>(f, s). f_status f = ''paid'') (join_fees db)"
  have ek: "?ek = (\<lambda>r. e_createdAt (fst r))" and fk: "?fk = (\<lambda>r. f_paidDate (fst r))"
    by (auto simp: fun_eq_iff)
  have se: "sorted_wrt (\<lambda>r r'. e_createdAt (fst r) \<ge> e_createdAt (fst r'))
              (order_desc ?ek (join_enrollments db))"
    using order_desc_sorted[of ?ek "join_enrollments db"] unfolding ek .
  have sf: "sorted_wrt (\<lambda>r r'. f_paidDate (fst r) \<ge> f_paidDate (fst r')) (order_desc ?fk ?paid)"
    using order_desc_sorted[of ?fk ?paid] unfolding fk .
  have 1: "sorted_wrt (\<lambda>r r'. e_createdAt (fst r) \<ge> e_createdAt (fst r')) (recent_enrollment_rows db)"
    unfolding recent_enrollment_rows_def using se by (rule sorted_wrt_take)
  have 2: "sorted_wrt (\<lambda>r r'. f_paidDate (fst r) \<ge> f_paidDate (fst r')) (recent_fee_rows db)"
    unfolding recent_fee_rows_def using sf by (rule sorted_wrt_take)
  have 3: "e \<in> set (enrollments db) \<and> s \<in> set (students db) \<and> e_studentId e = Some (s_id s)
        \<and> c \<in> set (courses db) \<and> e_courseId e = Some (c_id c)
        \<and> re_studentName (select_enrollment (e, s, c)) = s_name s
        \<and> re_courseName (select_enrollment (e, s, c)) = c_title c"
    if "(e, s, c) \<in> set (recent_enrollment_rows db)" for e s c
  proof -
    from that have "(e, s, c) \<in> set (order_desc ?ek (join_enrollments db))"
      unfolding recent_enrollment_rows_def by (rule in_set_takeD)
    then show ?thesis
      by (simp add: order_desc_set set_join_enrollments select_enrollment_def)
  qed
  have 4: "f \<in> set (fees db) \<and> f_status f = ''paid'' \<and> s \<in> set (students db)
        \<and> f_studentId f = Some (s_id s)
        \<and> rf_studentName (select_fee_payment (f, s)) = s_name s"
    if "(f, s) \<in> set (recent_fee_rows db)" for f s
  proof -
    from that have "(f, s) \<in> set (order_desc ?fk ?paid)"
      unfolding recent_fee_rows_def by (rule in_set_takeD)
    then show ?thesis
      by (simp add: order_desc_set set_join_fees select_fee_payment_def)
  qed
  have 5: "(e, s, c) \<in> set (recent_enrollment_rows db)
        \<or> (length (recent_enrollment_rows db) = 10
           \<and> (\<forall>r \<in> set (recent_enrollment_rows db). e_createdAt e \<le> e_createdAt (fst r)))"
    if "e \<in> set (enrollments db) \<and> s \<in> set (students db) \<and> e_studentId e = Some (s_id s)
          \<and> c \<in> set (courses db) \<and> e_courseId e = Some (c_id c)" for e s c
  proof -
    from that have "(e, s, c) \<in> set (order_desc ?ek (join_enrollments db))"
      by (simp add: order_desc_set set_join_enrollments)
    from take_sorted_top[OF se this, of 10] show ?thesis
      by (simp add: recent_enrollment_rows_def)
  qed
  have 6: "(f, s) \<in> set (recent_fee_rows db)
        \<or> (length (recent_fee_rows db) = 10
           \<and> (\<forall>r \<in> set (recent_fee_rows db). f_paidDate f \<le> f_paidDate (fst r)))"
    if "f \<in> set (fees db) \<and> f_status f = ''paid'' \<and> s \<in> set (students db)
          \<and> f_studentId f = Some (s_id s)" for f s
  proof -
    from that have "(f, s) \<in> set (order_desc ?fk ?paid)"
      by (simp add: order_desc_set set_join_fees)
    from take_sorted_top[OF sf this, of 10] show ?thesis
      by (simp add: recent_fee_rows_def)
  qed
  have 0: "ra_enrollments (recentActivities (GET_dashboard db))
     = map select_enrollment (recent_enrollment_rows db)
   \<and> ra_feePayments (recentActivities (GET_dashboard db))
     = map select_fee_payment (recent_fee_rows db)
   \<and> length (recent_enrollment_rows db) \<le> 10 \<and> length (recent_fee_rows db) \<le> 10"
    by (simp add: GET_dashboard_def Let_def recent_enrollment_rows_def recent_fee_rows_def)
  from 0 1 2 3 4 5 6 show ?thesis by blast
qed

theorem recent_activity_feeds_witness:
  "map re_id (ra_enrollments (recentActivities (GET_dashboard ex_campus))) = [3, 2, 1]
   \<and> map re_studentName (ra_enrollments (recentActivities (GET_dashboard ex_campus)))
       = [''Asha Rao'', ''Asha Rao'', ''Asha Rao'']
   \<and> map rf_id (ra_feePayments (recentActivities (GET_dashboard ex_campus))) = [1, 2]
   \<and> map rf_paidDate (ra_feePayments (recentActivities (GET_dashboard ex_campus)))
       = [Some ''2024-05-01T10:00:00.000Z'', Some ''2024-04-01T10:00:00.000Z'']"
proof -
  have e: "map e_id (map fst (recent_enrollment_rows ex_campus)) = [3, 2, 1]
      \<and> map s_name (map (fst \<circ> snd) (recent_enrollment_rows ex_campus))
          = [''Asha Rao'', ''Asha Rao'', ''Asha Rao'']"
    by (simp add: recent_enrollment_rows_def join_enrollments_def order_desc_def ex_campus_data)
  have f: "map f_id (map fst (recent_fee_rows ex_campus)) = [1, 2]
      \<and> map f_paidDate (map fst (recent_fee_rows ex_campus))
          = [Some ''2024-05-01T10:00:00.000Z'', Some ''2024-04-01T10:00:00.000Z'']"
    by (simp add: recent_fee_rows_def join_fees_def order_desc_def ex_campus_data)
  have p: "re_id \<circ> select_enrollment = e_id \<circ> fst"
    "re_studentName \<circ> select_enrollment = s_name \<circ> (fst \<circ> snd)"
    "rf_id \<circ> select_fee_payment = f_id \<circ> fst"
    "rf_paidDate \<circ> select_fee_payment = f_paidDate \<circ> fst"
    by (auto simp: fun_eq_iff select_enrollment_def select_fee_payment_def)
  from recent_activity_feeds[of ex_campus] e f show ?thesis
    by (simp add: p)
qed

text \<open>
  Fee 1 was created before fee 2 and paid after it: the feed shows fee 1 first, so it
  is not in descending order of creation time.
\<close>

theorem fee_feed_not_by_creation_time_counterexample:
  "map rf_id (ra_feePayments (recentActivities (GET_dashboard ex_campus))) = [1, 2]
   \<and> map f_id (fees ex_campus) = [1, 2]
   \<and> map f_status (fees ex_campus) = [''paid'', ''paid'']
   \<and> map f_createdAt (fees ex_campus) = [''2024-02-01T09:00:00.000Z'', ''2024-03-01T09:00:00.000Z'']
   \<and> ''2024-02-01T09:00:00.000Z'' < ''2024-03-01T09:00:00.000Z''"
  by (simp add: GET_dashboard_def recent_fee_rows_def join_fees_def order_desc_def
        select_fee_payment_def ex_campus_data Let_def)














lemma prop_of_skips_other_keys:
  assumes "k \<noteq> ''totalMarks''" "k \<noteq> ''grade''"
  shows "prop_of (VObj ((''totalMarks'', v) # (''grade'', w) # kvs)) k = prop_of (VObj kvs) k"
  using assms by simp




section \<open>The total and the grade of a marks record\<close>



end
